theory Spec2Isabelle
  imports Complex_Main "HOL-Library.AList"
begin

section \<open>Exceptions and numeric arrays\<close>

text \<open>
  The Python exceptions that the modelled code can raise. \<open>ConfigException\<close> is the
  plain \<open>Exception\<close> that \<open>ArtificialNeuralNetwork.forward_propagate\<close> raises about
  the configuration of a hardware layer.
\<close>

datatype error =
  ValueError | TypeError | NameError | KeyError | IndexError | AttributeError
  | ConfigException

text \<open>
  A one-dimensional numpy array is a list of numbers, a two-dimensional one the list of
  its rows. Numbers are mathematical reals: rounding of float64 is not modelled.
\<close>

type_synonym vector = "real list"
type_synonym matrix = "real list list"

definition has_shape :: "matrix \<Rightarrow> nat \<times> nat \<Rightarrow> bool" where
  "has_shape m d = (length m = fst d \<and> list_all (\<lambda>row. length row = snd d) m)"

definition inner :: "vector \<Rightarrow> vector \<Rightarrow> real" where
  "inner row x = sum_list (map2 times row x)"

text \<open>\<open>np.dot(m, x)\<close> of a matrix and a vector; numpy raises when the shapes are not aligned.\<close>

definition np_dot :: "matrix \<Rightarrow> vector \<Rightarrow> error + vector" where
  "np_dot m x =
     (if list_all (\<lambda>row. length row = length x) m
      then Inr (map (\<lambda>row. inner row x) m) else Inl ValueError)"

text \<open>
  An element-wise binary operation on two one-dimensional arrays, with numpy's
  broadcasting: equal lengths pair up, a length-one operand is stretched, anything else
  raises.
\<close>

definition broadcast2 :: "(real \<Rightarrow> real \<Rightarrow> real) \<Rightarrow> vector \<Rightarrow> vector \<Rightarrow> error + vector" where
  "broadcast2 f a b =
     (if length a = length b then Inr (map2 f a b)
      else if length a = 1 then Inr (map (f (hd a)) b)
      else if length b = 1 then Inr (map (\<lambda>x. f x (hd b)) a)
      else Inl ValueError)"

definition np_add :: "vector \<Rightarrow> vector \<Rightarrow> error + vector" where
  "np_add = broadcast2 plus"

definition np_multiply :: "vector \<Rightarrow> vector \<Rightarrow> error + vector" where
  "np_multiply = broadcast2 times"

text \<open>
  The mathematical reading of \<open>W\<cdot>x + b\<close>, entry by entry, against which the layers'
  computations are compared.
\<close>

definition W_dot_x_plus_b :: "matrix \<Rightarrow> vector \<Rightarrow> vector \<Rightarrow> vector" where
  "W_dot_x_plus_b W x b =
     map (\<lambda>k. (\<Sum>j<length x. W ! k ! j * x ! j) + b ! k) [0..<length W]"

section \<open>Activation functions\<close>

text \<open>
  Modelled from the spec: the class \<open>ActivationFunction\<close> of the module
  \<open>activation_functions\<close>, which is imported by \<open>layers.py\<close> and is not among the
  sources. The spec describes it as a capability that, given a numeric vector and two
  scalar parameters (gain, bias), returns an activated vector, with a getter and a setter
  for the two parameters. The computation itself is a field of the record, so every
  result below holds for any activation function.
\<close>

record ActivationFunction =
  af_calculate :: "real \<Rightarrow> real \<Rightarrow> vector \<Rightarrow> vector"
  af_beta :: real
  af_theta :: real

definition calculate_activation :: "ActivationFunction \<Rightarrow> vector \<Rightarrow> vector" where
  "calculate_activation af v = af_calculate af (af_beta af) (af_theta af) v"

definition set_parameters :: "ActivationFunction \<Rightarrow> real \<Rightarrow> real \<Rightarrow> ActivationFunction" where
  "set_parameters af b t = af\<lparr>af_beta := b, af_theta := t\<rparr>"

definition get_parameters :: "ActivationFunction \<Rightarrow> real \<times> real" where
  "get_parameters af = (af_beta af, af_theta af)"

definition identity_activation :: ActivationFunction where
  "identity_activation = \<lparr>af_calculate = (\<lambda>g t v. v), af_beta = 1, af_theta = 0\<rparr>"

text \<open>
  Python values as far as the constructors below tell them apart: the layers check with
  \<open>isinstance\<close> that the activation argument is an \<open>ActivationFunction\<close>, and numpy
  refuses a dimension that is not an integer.
\<close>

datatype pyval =
  PyInt nat | PyFloat real | PyArray vector | PyIntList "nat list"
  | PyActivation ActivationFunction | PyStr string

section \<open>StaticLayer\<close>

record StaticLayer =
  sl_layer_name :: string
  sl_weight_dim :: "nat \<times> nat"
  sl_bias_dim :: nat
  sl_weight_matrix :: matrix
  sl_bias_vector :: vector
  sl_activation_function :: ActivationFunction

text \<open>
  \<open>StaticLayer.__init__\<close>. The arrays \<open>w0\<close> and \<open>b0\<close> are what \<open>np.random.rand\<close>
  returns for the weight matrix and the bias vector.
\<close>

definition StaticLayer_init ::
  "nat \<Rightarrow> nat \<Rightarrow> pyval \<Rightarrow> string \<Rightarrow> matrix \<Rightarrow> vector \<Rightarrow> error + StaticLayer" where
  "StaticLayer_init input_dim output_dim activation_function layer_name w0 b0 =
     (case activation_function of
        PyActivation af \<Rightarrow>
          Inr \<lparr>sl_layer_name = layer_name,
               sl_weight_dim = (output_dim, input_dim),
               sl_bias_dim = output_dim,
               sl_weight_matrix = w0,
               sl_bias_vector = b0,
               sl_activation_function = af\<rparr>
      | _ \<Rightarrow> Inl TypeError)"

definition StaticLayer_forward_propagate :: "StaticLayer \<Rightarrow> vector \<Rightarrow> error + vector" where
  "StaticLayer_forward_propagate L input_vector =
     (if length input_vector \<noteq> snd (sl_weight_dim L) then Inl ValueError
      else case np_dot (sl_weight_matrix L) input_vector of
        Inl e \<Rightarrow> Inl e
      | Inr d \<Rightarrow>
          (case np_add d (sl_bias_vector L) of
             Inl e \<Rightarrow> Inl e
           | Inr output_vector \<Rightarrow>
               Inr (calculate_activation (sl_activation_function L) output_vector)))"

text \<open>
  The shape invariant of a layer: \<open>__init__\<close> establishes it (the random arrays have the
  declared shapes) and the setters check it before they store anything.
\<close>

definition StaticLayer_shaped :: "StaticLayer \<Rightarrow> bool" where
  "StaticLayer_shaped L =
     (has_shape (sl_weight_matrix L) (sl_weight_dim L)
      \<and> length (sl_bias_vector L) = fst (sl_weight_dim L))"

section \<open>TimeRecurrence\<close>

record TimeRecurrence =
  tr_weight_dim :: "nat \<times> nat"
  tr_weight_matrix :: matrix
  tr_input_vector :: vector

definition TimeRecurrence_init :: "nat \<Rightarrow> nat \<Rightarrow> matrix \<Rightarrow> TimeRecurrence" where
  "TimeRecurrence_init input_dim output_dim w0 =
     \<lparr>tr_weight_dim = (output_dim, input_dim),
      tr_weight_matrix = w0,
      tr_input_vector = replicate input_dim 0\<rparr>"

definition TimeRecurrence_forward_propagate :: "TimeRecurrence \<Rightarrow> error + vector" where
  "TimeRecurrence_forward_propagate tr = np_dot (tr_weight_matrix tr) (tr_input_vector tr)"

definition TimeRecurrence_set_weight_matrix ::
  "TimeRecurrence \<Rightarrow> matrix \<Rightarrow> error + TimeRecurrence" where
  "TimeRecurrence_set_weight_matrix tr weight_matrix =
     (if \<not> has_shape weight_matrix (tr_weight_dim tr) then Inl ValueError
      else Inr (tr\<lparr>tr_weight_matrix := weight_matrix\<rparr>))"

definition TimeRecurrence_set_input_vector ::
  "TimeRecurrence \<Rightarrow> vector \<Rightarrow> error + TimeRecurrence" where
  "TimeRecurrence_set_input_vector tr input_vector =
     (if length input_vector \<noteq> snd (tr_weight_dim tr) then Inl ValueError
      else Inr (tr\<lparr>tr_input_vector := input_vector\<rparr>))"

text \<open>
  The states a \<open>TimeRecurrence\<close> with the given dimensions can be in as long as
  \<open>set_input_vector\<close> has not been called: it has been constructed, and its weight
  matrix may have been replaced any number of times. (The getters and
  \<open>forward_propagate\<close> leave the object as it is.)
\<close>

inductive before_set_input :: "nat \<Rightarrow> nat \<Rightarrow> TimeRecurrence \<Rightarrow> bool" where
  constructed:
    "has_shape w0 (output_dim, input_dim) \<Longrightarrow>
     before_set_input input_dim output_dim (TimeRecurrence_init input_dim output_dim w0)"
| weight_set:
    "before_set_input input_dim output_dim tr \<Longrightarrow>
     TimeRecurrence_set_weight_matrix tr w = Inr tr' \<Longrightarrow>
     before_set_input input_dim output_dim tr'"

section \<open>CTRNNLayer\<close>

record CTRNNLayer =
  ct_layer_name :: string
  ct_weight_dim :: "nat \<times> nat"
  ct_bias_dim :: nat
  ct_time_dim :: nat
  ct_weight_matrix :: matrix
  ct_bias_vector :: vector
  ct_time_interval :: real
  ct_time_constant :: vector
  ct_time_weight :: vector
  ct_activation_function :: ActivationFunction
  ct_previous_output :: vector

text \<open>
  \<open>CTRNNLayer.__init__\<close>. The time weights are \<open>time_interval / time_constant\<close>, entry
  by entry. For a time constant of zero numpy stores an infinity, which the reals do
  not have; no statement below is about such a layer.
\<close>

definition CTRNNLayer_init ::
  "nat \<Rightarrow> nat \<Rightarrow> real \<Rightarrow> vector \<Rightarrow> pyval \<Rightarrow> string \<Rightarrow> matrix \<Rightarrow> vector \<Rightarrow> error + CTRNNLayer" where
  "CTRNNLayer_init input_dim output_dim time_interval time_constant activation_function
       layer_name w0 b0 =
     (let time_weight = map (\<lambda>tc. time_interval / tc) time_constant in
      if length time_weight \<noteq> output_dim then Inl ValueError
      else case activation_function of
        PyActivation af \<Rightarrow>
          Inr \<lparr>ct_layer_name = layer_name,
               ct_weight_dim = (output_dim, input_dim),
               ct_bias_dim = output_dim,
               ct_time_dim = output_dim,
               ct_weight_matrix = w0,
               ct_bias_vector = b0,
               ct_time_interval = time_interval,
               ct_time_constant = time_constant,
               ct_time_weight = time_weight,
               ct_activation_function = af,
               ct_previous_output = replicate output_dim 0\<rparr>
      | _ \<Rightarrow> Inl TypeError)"

definition CTRNNLayer_set_weight_matrix :: "CTRNNLayer \<Rightarrow> matrix \<Rightarrow> error + CTRNNLayer" where
  "CTRNNLayer_set_weight_matrix L weight_matrix =
     (if \<not> has_shape weight_matrix (ct_weight_dim L) then Inl ValueError
      else Inr (L\<lparr>ct_weight_matrix := weight_matrix\<rparr>))"

definition CTRNNLayer_set_bias_vector :: "CTRNNLayer \<Rightarrow> vector \<Rightarrow> error + CTRNNLayer" where
  "CTRNNLayer_set_bias_vector L bias_vector =
     (if length bias_vector \<noteq> ct_bias_dim L then Inl ValueError
      else Inr (L\<lparr>ct_bias_vector := bias_vector\<rparr>))"

text \<open>\<open>euler_step\<close> returns the output and the layer with its stored previous output.\<close>

definition euler_step :: "CTRNNLayer \<Rightarrow> vector \<Rightarrow> error + (vector \<times> CTRNNLayer)" where
  "euler_step L input_vector =
     (if length input_vector \<noteq> snd (ct_weight_dim L) then Inl ValueError
      else case np_dot (ct_weight_matrix L) input_vector of
        Inl e \<Rightarrow> Inl e
      | Inr d \<Rightarrow>
      (case np_add d (ct_bias_vector L) of
        Inl e \<Rightarrow> Inl e
      | Inr s \<Rightarrow>
      (let current_activation = calculate_activation (ct_activation_function L) s in
       case np_multiply (ct_previous_output L) (map (\<lambda>t. 1 - t) (ct_time_weight L)) of
        Inl e \<Rightarrow> Inl e
      | Inr p \<Rightarrow>
      (case np_multiply current_activation (ct_time_weight L) of
        Inl e \<Rightarrow> Inl e
      | Inr q \<Rightarrow>
      (case np_add p q of
        Inl e \<Rightarrow> Inl e
      | Inr current_output \<Rightarrow>
          Inr (current_output, L\<lparr>ct_previous_output := current_output\<rparr>))))))"

definition CTRNNLayer_shaped :: "CTRNNLayer \<Rightarrow> bool" where
  "CTRNNLayer_shaped L =
     (has_shape (ct_weight_matrix L) (ct_weight_dim L)
      \<and> length (ct_bias_vector L) = fst (ct_weight_dim L)
      \<and> length (ct_time_weight L) = fst (ct_weight_dim L)
      \<and> length (ct_previous_output L) = fst (ct_weight_dim L))"

text \<open>The Euler update, entry by entry.\<close>

definition euler_output :: "vector \<Rightarrow> vector \<Rightarrow> vector \<Rightarrow> vector" where
  "euler_output previous_output time_weight activated =
     map (\<lambda>k. previous_output ! k * (1 - time_weight ! k) + activated ! k * time_weight ! k)
       [0..<length previous_output]"

text \<open>
  The layer of the end-to-end scenario: one neuron, one input, time constant 1, time
  interval 0.5, identity activation, weight 1 and bias 0 (set over whatever the
  constructor drew).
\<close>

definition scenario_layer :: "real \<Rightarrow> real \<Rightarrow> error + CTRNNLayer" where
  "scenario_layer r1 r2 =
     (case CTRNNLayer_init 1 1 (1/2) [1] (PyActivation identity_activation) ''ctrnn'' [[r1]] [r2] of
        Inl e \<Rightarrow> Inl e
      | Inr L0 \<Rightarrow>
          (case CTRNNLayer_set_weight_matrix L0 [[1]] of
             Inl e \<Rightarrow> Inl e
           | Inr L1 \<Rightarrow> CTRNNLayer_set_bias_vector L1 [0]))"

definition call_twice :: "CTRNNLayer \<Rightarrow> vector \<Rightarrow> vector \<Rightarrow> error + (vector \<times> vector)" where
  "call_twice L x1 x2 =
     (case euler_step L x1 of
        Inl e \<Rightarrow> Inl e
      | Inr (y1, L1) \<Rightarrow>
          (case euler_step L1 x2 of
             Inl e \<Rightarrow> Inl e
           | Inr (y2, L2) \<Rightarrow> Inr (y1, y2)))"

definition ctrnn_activated :: "CTRNNLayer \<Rightarrow> vector \<Rightarrow> vector" where
  "ctrnn_activated L x =
     calculate_activation (ct_activation_function L)
       (W_dot_x_plus_b (ct_weight_matrix L) x (ct_bias_vector L))"

definition scenario_record :: CTRNNLayer where
  "scenario_record =
     \<lparr>ct_layer_name = ''ctrnn'', ct_weight_dim = (1, 1), ct_bias_dim = 1, ct_time_dim = 1,
      ct_weight_matrix = [[1]], ct_bias_vector = [0], ct_time_interval = 1/2,
      ct_time_constant = [1], ct_time_weight = [1/2],
      ct_activation_function = identity_activation, ct_previous_output = [0]\<rparr>"

text \<open>
  The second layer of the spec's two-layer scenario: two inputs, one output, weights
  \<open>[[1, 1]]\<close>, bias \<open>[0]\<close>, identity activation.
\<close>

definition example_static :: StaticLayer where
  "example_static =
     \<lparr>sl_layer_name = ''L2'', sl_weight_dim = (1, 2), sl_bias_dim = 1,
      sl_weight_matrix = [[1, 1]], sl_bias_vector = [0],
      sl_activation_function = identity_activation\<rparr>"

section \<open>Parameter vectors\<close>

text \<open>
  Slicing \<open>v[a:b]\<close> (for \<open>0 \<le> a\<close>), \<open>reshape\<close> to one and two dimensions, and
  indexing \<open>v[k]\<close> of a one-dimensional array. A slice never raises, it is cut at the
  end of the array; \<open>reshape\<close> raises when the sizes differ, indexing when out of range.
\<close>

definition slice :: "vector \<Rightarrow> nat \<Rightarrow> nat \<Rightarrow> vector" where
  "slice v a b = take (b - a) (drop a v)"

definition reshape1 :: "vector \<Rightarrow> nat \<Rightarrow> error + vector" where
  "reshape1 v n = (if length v \<noteq> n then Inl ValueError else Inr v)"

definition reshape2 :: "vector \<Rightarrow> nat \<times> nat \<Rightarrow> error + matrix" where
  "reshape2 v d =
     (if length v \<noteq> fst d * snd d then Inl ValueError
      else Inr (map (\<lambda>k. take (snd d) (drop (k * snd d) v)) [0..<fst d]))"

definition item :: "vector \<Rightarrow> nat \<Rightarrow> error + real" where
  "item v k = (if k < length v then Inr (v ! k) else Inl IndexError)"

text \<open>
  The names bound at module level in \<open>layers.py\<close>: its imports and its classes. A name
  that a method reads without ever assigning it is looked up here; a name that is not
  bound raises \<open>NameError\<close>, and subscripting a module or a class raises \<open>TypeError\<close>.
\<close>

definition module_globals :: "string list" where
  "module_globals =
     [''np'', ''ActivationFunction'', ''warnings'', ''StaticLayer'', ''TimeDelay'',
      ''TimeRecurrence'', ''DynamicLayer'', ''CTRNNLayer'', ''RBFLayer'']"

definition global_subscript :: "string \<Rightarrow> nat \<Rightarrow> error + nat" where
  "global_subscript name k =
     (if name \<in> set module_globals then Inl TypeError else Inl NameError)"

subsection \<open>StaticLayer\<close>

definition StaticLayer_set_weight_matrix :: "StaticLayer \<Rightarrow> matrix \<Rightarrow> error + StaticLayer" where
  "StaticLayer_set_weight_matrix L weight_matrix =
     (if \<not> has_shape weight_matrix (sl_weight_dim L) then Inl ValueError
      else Inr (L\<lparr>sl_weight_matrix := weight_matrix\<rparr>))"

definition StaticLayer_set_bias_vector :: "StaticLayer \<Rightarrow> vector \<Rightarrow> error + StaticLayer" where
  "StaticLayer_set_bias_vector L bias_vector =
     (if length bias_vector \<noteq> sl_bias_dim L then Inl ValueError
      else Inr (L\<lparr>sl_bias_vector := bias_vector\<rparr>))"

definition StaticLayer_set_activation_parameters ::
  "StaticLayer \<Rightarrow> real \<Rightarrow> real \<Rightarrow> StaticLayer" where
  "StaticLayer_set_activation_parameters L beta theta =
     L\<lparr>sl_activation_function := set_parameters (sl_activation_function L) beta theta\<rparr>"

text \<open>
  The \<open>try\<close> block of \<open>StaticLayer.update_parameters\<close>, given the value of
  \<open>bias_interval\<close>; it returns the layer and the final \<open>interval_counter\<close>.
\<close>

definition StaticLayer_update_block ::
  "StaticLayer \<Rightarrow> vector \<Rightarrow> nat \<Rightarrow> nat \<Rightarrow> error + (StaticLayer \<times> nat)" where
  "StaticLayer_update_block L parameter_vector weight_interval bias_interval =
     (case reshape2 (slice parameter_vector 0 (0 + weight_interval)) (sl_weight_dim L) of
        Inl e \<Rightarrow> Inl e
      | Inr w \<Rightarrow>
     (case StaticLayer_set_weight_matrix L w of
        Inl e \<Rightarrow> Inl e
      | Inr L1 \<Rightarrow>
     (let c1 = 0 + weight_interval in
      case reshape1 (slice parameter_vector c1 (c1 + bias_interval)) (sl_bias_dim L1) of
        Inl e \<Rightarrow> Inl e
      | Inr b \<Rightarrow>
     (case StaticLayer_set_bias_vector L1 b of
        Inl e \<Rightarrow> Inl e
      | Inr L2 \<Rightarrow>
     (let c2 = c1 + bias_interval in
      case item parameter_vector c2 of
        Inl e \<Rightarrow> Inl e
      | Inr beta \<Rightarrow>
     (case item parameter_vector (c2 + 1) of
        Inl e \<Rightarrow> Inl e
      | Inr theta \<Rightarrow>
          Inr (StaticLayer_set_activation_parameters L2 beta theta, c2 + 2)))))))"

text \<open>
  \<open>StaticLayer.update_parameters\<close>. The result carries the updated layer and whether
  the warning about a vector longer than required was issued. The statement
  \<open>bias_interval = bias_dim[0]\<close> reads the name \<open>bias_dim\<close>, which the method never
  assigns (the attribute is \<open>self.bias_dim\<close>); it stands before the \<open>try\<close> block, whose
  \<open>except\<close> turns every exception into a \<open>ValueError\<close>.
\<close>

definition StaticLayer_update_parameters ::
  "StaticLayer \<Rightarrow> vector \<Rightarrow> error + (StaticLayer \<times> bool)" where
  "StaticLayer_update_parameters L parameter_vector =
     (let weight_interval = fst (sl_weight_dim L) * snd (sl_weight_dim L) in
      case global_subscript ''bias_dim'' 0 of
        Inl e \<Rightarrow> Inl e
      | Inr bias_interval \<Rightarrow>
          (case StaticLayer_update_block L parameter_vector weight_interval bias_interval of
             Inl e \<Rightarrow> Inl ValueError
           | Inr (L', interval_counter) \<Rightarrow>
               Inr (L', length parameter_vector > interval_counter)))"

definition StaticLayer_return_parameters :: "StaticLayer \<Rightarrow> vector" where
  "StaticLayer_return_parameters L =
     (let weight_vector = concat (sl_weight_matrix L);
          bias_vector = sl_bias_vector L;
          activation_vector =
            [fst (get_parameters (sl_activation_function L)),
             snd (get_parameters (sl_activation_function L))]
      in [] @ weight_vector @ bias_vector @ activation_vector)"

subsection \<open>CTRNNLayer\<close>

definition CTRNNLayer_set_time_constant :: "CTRNNLayer \<Rightarrow> vector \<Rightarrow> error + CTRNNLayer" where
  "CTRNNLayer_set_time_constant L time_constant =
     (if length time_constant \<noteq> ct_time_dim L then Inl ValueError
      else Inr (L\<lparr>ct_time_constant := time_constant,
                  ct_time_weight := map (\<lambda>tc. ct_time_interval L / tc) time_constant\<rparr>))"

definition CTRNNLayer_set_activation_parameters ::
  "CTRNNLayer \<Rightarrow> real \<Rightarrow> real \<Rightarrow> CTRNNLayer" where
  "CTRNNLayer_set_activation_parameters L beta theta =
     L\<lparr>ct_activation_function := set_parameters (ct_activation_function L) beta theta\<rparr>"

definition CTRNNLayer_update_block ::
  "CTRNNLayer \<Rightarrow> vector \<Rightarrow> nat \<Rightarrow> nat \<Rightarrow> nat \<Rightarrow> error + (CTRNNLayer \<times> nat)" where
  "CTRNNLayer_update_block L parameter_vector time_interval weight_interval bias_interval =
     (case reshape1 (slice parameter_vector 0 (0 + time_interval)) (ct_time_dim L) of
        Inl e \<Rightarrow> Inl e
      | Inr tc \<Rightarrow>
     (case CTRNNLayer_set_time_constant L tc of
        Inl e \<Rightarrow> Inl e
      | Inr L0 \<Rightarrow>
     (let c0 = 0 + time_interval in
      case reshape2 (slice parameter_vector c0 (c0 + weight_interval)) (ct_weight_dim L0) of
        Inl e \<Rightarrow> Inl e
      | Inr w \<Rightarrow>
     (case CTRNNLayer_set_weight_matrix L0 w of
        Inl e \<Rightarrow> Inl e
      | Inr L1 \<Rightarrow>
     (let c1 = c0 + weight_interval in
      case reshape1 (slice parameter_vector c1 (c1 + bias_interval)) (ct_bias_dim L1) of
        Inl e \<Rightarrow> Inl e
      | Inr b \<Rightarrow>
     (case CTRNNLayer_set_bias_vector L1 b of
        Inl e \<Rightarrow> Inl e
      | Inr L2 \<Rightarrow>
     (let c2 = c1 + bias_interval in
      case item parameter_vector c2 of
        Inl e \<Rightarrow> Inl e
      | Inr beta \<Rightarrow>
     (case item parameter_vector (c2 + 1) of
        Inl e \<Rightarrow> Inl e
      | Inr theta \<Rightarrow>
          Inr (CTRNNLayer_set_activation_parameters L2 beta theta, c2 + 2)))))))))"

text \<open>
  \<open>CTRNNLayer.update_parameters\<close> has the same statement \<open>bias_interval = bias_dim[0]\<close>
  before its \<open>try\<close> block.
\<close>

definition CTRNNLayer_update_parameters ::
  "CTRNNLayer \<Rightarrow> vector \<Rightarrow> error + (CTRNNLayer \<times> bool)" where
  "CTRNNLayer_update_parameters L parameter_vector =
     (let time_interval = ct_time_dim L;
          weight_interval = fst (ct_weight_dim L) * snd (ct_weight_dim L) in
      case global_subscript ''bias_dim'' 0 of
        Inl e \<Rightarrow> Inl e
      | Inr bias_interval \<Rightarrow>
          (case CTRNNLayer_update_block L parameter_vector time_interval weight_interval
                  bias_interval of
             Inl e \<Rightarrow> Inl ValueError
           | Inr (L', interval_counter) \<Rightarrow>
               Inr (L', length parameter_vector > interval_counter)))"

subsection \<open>TimeDelay and DynamicLayer\<close>

record TimeDelay =
  td_weight_dim :: "nat \<times> nat"
  td_input_matrix_dim :: "nat \<times> nat"
  td_weight_vector :: matrix
  td_input_matrix :: matrix

definition TimeDelay_init :: "nat \<Rightarrow> nat \<Rightarrow> matrix \<Rightarrow> TimeDelay" where
  "TimeDelay_init input_dim delay_dim dw0 =
     \<lparr>td_weight_dim = (1, delay_dim),
      td_input_matrix_dim = (delay_dim, input_dim),
      td_weight_vector = dw0,
      td_input_matrix = replicate delay_dim (replicate input_dim 0)\<rparr>"

record DynamicLayer =
  dl_layer_name :: string
  dl_weight_dim :: "nat \<times> nat"
  dl_bias_dim :: nat
  dl_weight_matrix :: matrix
  dl_bias_vector :: vector
  dl_delay_system :: TimeDelay
  dl_recurrent_system :: "TimeRecurrence list"
  dl_activation_function :: ActivationFunction

text \<open>
  What \<open>np.random.rand\<close> returns during one constructor call: the weight matrix, the
  bias vector, the weight vector of the delay system and the weight matrix of the
  recurrent system at each position.
\<close>

record random_draws =
  rd_weight :: matrix
  rd_bias :: vector
  rd_delay :: matrix
  rd_recurrent :: "nat \<Rightarrow> matrix"

text \<open>
  The dimensions that the loop \<open>for dimension in recurrent_dim\<close> hands to
  \<open>TimeRecurrence\<close>: a list of integers works; a number or an object is not iterable, and
  an entry that is not an integer is refused by \<open>np.random.rand\<close>.
\<close>

definition recurrent_dimensions :: "pyval \<Rightarrow> error + nat list" where
  "recurrent_dimensions recurrent_dim =
     (case recurrent_dim of
        PyIntList ds \<Rightarrow> Inr ds
      | PyArray v \<Rightarrow> (if v = [] then Inr [] else Inl TypeError)
      | PyStr s \<Rightarrow> (if s = [] then Inr [] else Inl TypeError)
      | _ \<Rightarrow> Inl TypeError)"

text \<open>
  \<open>DynamicLayer.__init__(input_dim, output_dim, delay_dim, recurrent_dim,
  activation_function, layer_name)\<close>. \<open>TimeDelay(input_dim, delay_dim)\<close> passes
  \<open>delay_dim\<close> to \<open>np.random.rand\<close> and \<open>np.zeros\<close>, which need an integer.
\<close>

definition DynamicLayer_init ::
  "nat \<Rightarrow> nat \<Rightarrow> pyval \<Rightarrow> pyval \<Rightarrow> pyval \<Rightarrow> string \<Rightarrow> random_draws \<Rightarrow> error + DynamicLayer" where
  "DynamicLayer_init input_dim output_dim delay_dim recurrent_dim activation_function
       layer_name draws =
     (case delay_dim of
        PyInt d \<Rightarrow>
          (case recurrent_dimensions recurrent_dim of
             Inl e \<Rightarrow> Inl e
           | Inr dims \<Rightarrow>
               (case activation_function of
                  PyActivation af \<Rightarrow>
                    Inr \<lparr>dl_layer_name = layer_name,
                         dl_weight_dim = (output_dim, input_dim),
                         dl_bias_dim = output_dim,
                         dl_weight_matrix = rd_weight draws,
                         dl_bias_vector = rd_bias draws,
                         dl_delay_system = TimeDelay_init input_dim d (rd_delay draws),
                         dl_recurrent_system =
                           map (\<lambda>k. TimeRecurrence_init (dims ! k) output_dim (rd_recurrent draws k))
                             [0..<length dims],
                         dl_activation_function = af\<rparr>
                | _ \<Rightarrow> Inl TypeError))
      | _ \<Rightarrow> Inl TypeError)"

text \<open>
  \<open>DynamicLayer.return_parameters\<close> builds the concatenated vector \<open>output\<close> and ends
  without a \<open>return\<close> statement, so the call evaluates to Python's \<open>None\<close>.
\<close>

definition DynamicLayer_return_parameters :: "DynamicLayer \<Rightarrow> vector option" where
  "DynamicLayer_return_parameters L =
     (let weight_vector_delay = concat (td_weight_vector (dl_delay_system L));
          weight_vector_recurrent =
            concat (map (\<lambda>tr. concat (tr_weight_matrix tr)) (dl_recurrent_system L));
          weight_vector_static = concat (dl_weight_matrix L);
          bias_vector = dl_bias_vector L;
          activation_vector =
            [fst (get_parameters (dl_activation_function L)),
             snd (get_parameters (dl_activation_function L))];
          output = [] @ weight_vector_delay @ weight_vector_recurrent @ weight_vector_static
                     @ bias_vector @ activation_vector
      in None)"

section \<open>The network\<close>

text \<open>
  A Python dictionary is an association list in insertion order: \<open>map_of\<close> looks a key
  up, \<open>AList.update\<close> assigns (in place for a key that is present, at the end for a new
  one) and \<open>map fst\<close> lists the keys.

  One entry of \<open>layer_vector\<close>, the tuple that describes a layer: index 0 is its name,
  1 its number of neurons, 2 its kind, 3 its activation function, 4 the sensor it reads,
  5 its output connections and 6 those of them that are delayed.
\<close>

type_synonym ('k, 'v) dict = "('k \<times> 'v) list"

record LayerSpec =
  ls_name :: string
  ls_size :: nat
  ls_kind :: string
  ls_activation :: pyval
  ls_sensor :: string
  ls_outputs :: "string list"
  ls_delayed :: "string list"

datatype layer = Static StaticLayer | Dynamic DynamicLayer

text \<open>
  The nodes of the computational graph. The input of a layer's node is either a constant
  vector of zeros (input layers) or the concatenation of pieces, each read from the output
  matrix (this tick's output of a layer) or from the state matrix (its last tick's output).
\<close>

datatype tensor_ref = FromOutput string | FromState string

datatype tensor = Zeros nat | Concat "tensor_ref list"

record ArtificialNeuralNetwork =
  number_of_layers :: nat
  order_of_execution :: "LayerSpec list"
  ann_time_interval :: real
  input_connections :: "(string, (string \<times> bool) list) dict"
  output_connections :: "(string, string list) dict"
  sensor_inputs :: "string list"
  output_layers :: "string list"
  input_layers :: "string list"
  level_vector :: "string list list"
  output_matrix :: "(string, tensor) dict"
  state_matrix :: "string list"
  ann_state :: "(string, vector) dict"
  neuron_map :: "(string, nat) dict"
  layer_map :: "(string, layer) dict"

subsection \<open>Constructing the layers\<close>

text \<open>The inner loop of the first pass: \<open>for output_layer in layer[5]\<close>.\<close>

fun add_input_connections ::
  "string \<Rightarrow> string list \<Rightarrow> string list \<Rightarrow> (string, (string \<times> bool) list) dict
     \<Rightarrow> (string, (string \<times> bool) list) dict" where
  "add_input_connections name delayed [] ic = ic"
| "add_input_connections name delayed (output_layer # rest) ic =
     (let layer_tuple = (name, output_layer \<in> set delayed) in
      add_input_connections name delayed rest
        (case map_of ic output_layer of
           Some cs \<Rightarrow> AList.update output_layer (cs @ [layer_tuple]) ic
         | None \<Rightarrow> AList.update output_layer [layer_tuple] ic))"

text \<open>The first pass over \<open>layer_vector\<close>: the input-output dictionaries.\<close>

fun construct_dictionaries ::
  "LayerSpec list \<Rightarrow> ArtificialNeuralNetwork \<Rightarrow> ArtificialNeuralNetwork" where
  "construct_dictionaries [] net = net"
| "construct_dictionaries (layer # rest) net =
     construct_dictionaries rest
       (net\<lparr>neuron_map := AList.update (ls_name layer) (ls_size layer) (neuron_map net),
            output_connections :=
              AList.update (ls_name layer) (ls_outputs layer) (output_connections net),
            input_connections :=
              add_input_connections (ls_name layer) (ls_delayed layer) (ls_outputs layer)
                (input_connections net)\<rparr>)"

text \<open>
  The body of \<open>try\<close> in the second pass: the sum of the neurons of every input
  connection; \<open>None\<close> stands for a \<open>KeyError\<close>, which the \<open>except\<close> clause catches.
\<close>

fun sum_connections :: "(string, nat) dict \<Rightarrow> (string \<times> bool) list \<Rightarrow> nat \<Rightarrow> nat option" where
  "sum_connections nm [] input_dimension = Some input_dimension"
| "sum_connections nm (connection # rest) input_dimension =
     (case map_of nm (fst connection) of
        None \<Rightarrow> None
      | Some n \<Rightarrow> sum_connections nm rest (input_dimension + n))"

definition input_dimension_of ::
  "ArtificialNeuralNetwork \<Rightarrow> LayerSpec \<Rightarrow> error + (nat \<times> ArtificialNeuralNetwork)" where
  "input_dimension_of net layer =
     (case (case map_of (input_connections net) (ls_name layer) of
              None \<Rightarrow> None
            | Some conns \<Rightarrow> sum_connections (neuron_map net) conns 0) of
        Some input_dimension \<Rightarrow> Inr (input_dimension, net)
      | None \<Rightarrow>
          (case level_vector net of
             [] \<Rightarrow> Inl IndexError
           | level0 # levels \<Rightarrow>
               Inr (ls_size layer,
                    net\<lparr>input_layers := input_layers net @ [ls_name layer],
                        level_vector := (level0 @ [ls_name layer]) # levels\<rparr>)))"

text \<open>
  The second pass: one layer object per entry whose kind is \<open>"STATIC"\<close> or
  \<open>"DYNAMIC"\<close>; an entry of any other kind is passed over. \<open>draws\<close> gives, for each layer
  name and the two dimensions, what \<open>np.random.rand\<close> returns in its constructor. The call for a dynamic layer is
  \<open>DynamicLayer(input_dimension, output_dimension, activation_function,
  self.__time_interval, np.ones((output_dimension, )), layer[0])\<close>, so the constructor
  receives the activation function as \<open>delay_dim\<close>, the time interval as \<open>recurrent_dim\<close>
  and the array of ones as \<open>activation_function\<close>.
\<close>

fun generate_layers ::
  "(string \<Rightarrow> nat \<Rightarrow> nat \<Rightarrow> random_draws) \<Rightarrow> LayerSpec list \<Rightarrow> ArtificialNeuralNetwork
     \<Rightarrow> error + ArtificialNeuralNetwork" where
  "generate_layers draws [] net = Inr net"
| "generate_layers draws (layer # rest) net =
     (if ls_kind layer = ''STATIC'' then
        (case input_dimension_of net layer of
           Inl e \<Rightarrow> Inl e
         | Inr (input_dimension, net1) \<Rightarrow>
             (case StaticLayer_init input_dimension (ls_size layer) (ls_activation layer)
                     (ls_name layer)
                     (rd_weight (draws (ls_name layer) (ls_size layer) input_dimension))
                     (rd_bias (draws (ls_name layer) (ls_size layer) input_dimension)) of
                Inl e \<Rightarrow> Inl e
              | Inr L \<Rightarrow>
                  generate_layers draws rest
                    (net1\<lparr>layer_map :=
                       AList.update (ls_name layer) (Static L) (layer_map net1)\<rparr>)))
      else if ls_kind layer = ''DYNAMIC'' then
        (case input_dimension_of net layer of
           Inl e \<Rightarrow> Inl e
         | Inr (input_dimension, net1) \<Rightarrow>
             (case DynamicLayer_init input_dimension (ls_size layer) (ls_activation layer)
                     (PyFloat (ann_time_interval net1)) (PyArray (replicate (ls_size layer) 1))
                     (ls_name layer)
                     (draws (ls_name layer) (ls_size layer) input_dimension) of
                Inl e \<Rightarrow> Inl e
              | Inr L \<Rightarrow>
                  generate_layers draws rest
                    (net1\<lparr>layer_map :=
                       AList.update (ls_name layer) (Dynamic L) (layer_map net1)\<rparr>)))
      else generate_layers draws rest net)"

definition construct_layers ::
  "(string \<Rightarrow> nat \<Rightarrow> nat \<Rightarrow> random_draws) \<Rightarrow> LayerSpec list \<Rightarrow> ArtificialNeuralNetwork
     \<Rightarrow> error + ArtificialNeuralNetwork" where
  "construct_layers draws layer_vector net =
     (case generate_layers draws layer_vector
             (construct_dictionaries layer_vector (net\<lparr>layer_map := [], neuron_map := []\<rparr>)) of
        Inl e \<Rightarrow> Inl e
      | Inr net2 \<Rightarrow>
          Inr (net2\<lparr>output_layers :=
                 output_layers net2
                 @ filter (\<lambda>layers. layers \<notin> set (map fst (output_connections net2)))
                     (map fst (input_connections net2))\<rparr>))"

text \<open>The attributes that \<open>__init__\<close> sets before it constructs the layers and the graph.\<close>

definition initial_network :: "LayerSpec list \<Rightarrow> real \<Rightarrow> ArtificialNeuralNetwork" where
  "initial_network layer_vector time_interval =
     \<lparr>number_of_layers = length layer_vector,
      order_of_execution = layer_vector,
      ann_time_interval = time_interval,
      input_connections = [],
      output_connections = [],
      sensor_inputs = [],
      output_layers = [],
      input_layers = [],
      level_vector = [[]],
      output_matrix = [],
      state_matrix =
        map fst (fold (\<lambda>layer. AList.update (ls_name layer) ()) layer_vector []),
      ann_state =
        fold (\<lambda>layer. AList.update (ls_name layer) (replicate (ls_size layer) 0)) layer_vector [],
      neuron_map = [],
      layer_map = []\<rparr>"

subsection \<open>Constructing the computational graph\<close>

text \<open>
  The local variables of \<open>_construct_graph\<close> next to the network: the dictionary
  \<open>layers_done\<close> and the counter \<open>layers_generated\<close>.
\<close>

record graph_state =
  net :: ArtificialNeuralNetwork
  layers_done :: "(string, bool) dict"
  layers_generated :: nat

text \<open>
  \<open>try: level_vector[k].append(c)\<close>, \<open>except: level_vector.append([]);
  level_vector[k].append(c)\<close>.
\<close>

definition append_level :: "string list list \<Rightarrow> nat \<Rightarrow> string \<Rightarrow> error + string list list" where
  "append_level lv k c =
     (if k < length lv then Inr (lv[k := lv ! k @ [c]])
      else (let lv' = lv @ [[]] in
            if k < length lv' then Inr (lv'[k := lv' ! k @ [c]]) else Inl IndexError))"

text \<open>
  The loop over the input connections of a layer on the ordinary path. A delayed
  connection reads the state matrix; any other reads the output matrix, and when the
  upstream layer has no entry there yet, the layer is appended to the new error queue
  and the loop goes on with the next connection.
\<close>

fun gather_inputs ::
  "ArtificialNeuralNetwork \<Rightarrow> string \<Rightarrow> (string \<times> bool) list \<Rightarrow> tensor_ref list \<Rightarrow> string list
     \<Rightarrow> error + (tensor_ref list \<times> string list)" where
  "gather_inputs n layer [] input_vector new_error_queue = Inr (input_vector, new_error_queue)"
| "gather_inputs n layer (connection # rest) input_vector new_error_queue =
     (if snd connection then
        (if fst connection \<in> set (state_matrix n)
         then gather_inputs n layer rest (input_vector @ [FromState (fst connection)])
                new_error_queue
         else Inl KeyError)
      else
        (case map_of (output_matrix n) (fst connection) of
           Some t \<Rightarrow>
             gather_inputs n layer rest (input_vector @ [FromOutput (fst connection)])
               new_error_queue
         | None \<Rightarrow> gather_inputs n layer rest input_vector (new_error_queue @ [layer])))"

text \<open>
  The same loop when the error queue did not shrink: a missing entry of the output matrix
  is replaced by the state matrix.
\<close>

fun force_inputs ::
  "ArtificialNeuralNetwork \<Rightarrow> (string \<times> bool) list \<Rightarrow> tensor_ref list
     \<Rightarrow> error + tensor_ref list" where
  "force_inputs n [] input_vector = Inr input_vector"
| "force_inputs n (connection # rest) input_vector =
     (if snd connection then
        (if fst connection \<in> set (state_matrix n)
         then force_inputs n rest (input_vector @ [FromState (fst connection)])
         else Inl KeyError)
      else
        (case map_of (output_matrix n) (fst connection) of
           Some t \<Rightarrow> force_inputs n rest (input_vector @ [FromOutput (fst connection)])
         | None \<Rightarrow>
             (if fst connection \<in> set (state_matrix n)
              then force_inputs n rest (input_vector @ [FromState (fst connection)])
              else Inl KeyError)))"

text \<open>
  "Make an entry to output matrix": the node calls the layer object's
  \<open>forward_propagate\<close>, which is looked up in the layer map.
\<close>

definition make_entry :: "string \<Rightarrow> tensor \<Rightarrow> graph_state \<Rightarrow> error + graph_state" where
  "make_entry layer input_vector s =
     (case map_of (layer_map (net s)) layer of
        None \<Rightarrow> Inl KeyError
      | Some l \<Rightarrow>
          Inr (s\<lparr>net := (net s)\<lparr>output_matrix :=
                          AList.update layer input_vector (output_matrix (net s))\<rparr>,
                 layers_generated := layers_generated s + 1\<rparr>))"

text \<open>
  "Insert all the connections to the next level" on the ordinary path: a connection that
  is not a hardware layer and has not been checked yet.
\<close>

fun insert_connections :: "nat \<Rightarrow> string list \<Rightarrow> graph_state \<Rightarrow> error + graph_state" where
  "insert_connections current_level [] s = Inr s"
| "insert_connections current_level (connection # rest) s =
     (if connection \<notin> set (output_layers (net s)) then
        (case map_of (layers_done s) connection of
           None \<Rightarrow> Inl KeyError
         | Some done \<Rightarrow>
             (if done = False then
                (case append_level (level_vector (net s)) (current_level + 1) connection of
                   Inl e \<Rightarrow> Inl e
                 | Inr lv \<Rightarrow>
                     insert_connections current_level rest
                       (s\<lparr>net := (net s)\<lparr>level_vector := lv\<rparr>,
                          layers_done := AList.update connection True (layers_done s)\<rparr>))
              else insert_connections current_level rest s))
      else insert_connections current_level rest s)"

text \<open>The same loop after a forced entry: only hardware layers are left out.\<close>

fun insert_connections_forced :: "nat \<Rightarrow> string list \<Rightarrow> graph_state \<Rightarrow> error + graph_state" where
  "insert_connections_forced current_level [] s = Inr s"
| "insert_connections_forced current_level (connection # rest) s =
     (if connection \<notin> set (output_layers (net s)) then
        (case append_level (level_vector (net s)) (current_level + 1) connection of
           Inl e \<Rightarrow> Inl e
         | Inr lv \<Rightarrow>
             insert_connections_forced current_level rest
               (s\<lparr>net := (net s)\<lparr>level_vector := lv\<rparr>\<rparr>))
      else insert_connections_forced current_level rest s)"

definition add_placeholder :: "string \<Rightarrow> graph_state \<Rightarrow> graph_state" where
  "add_placeholder layer s =
     s\<lparr>net := (net s)\<lparr>sensor_inputs :=
         (if layer \<in> set (sensor_inputs (net s)) then sensor_inputs (net s)
          else sensor_inputs (net s) @ [layer])\<rparr>\<rparr>"

definition generate ::
  "nat \<Rightarrow> string \<Rightarrow> tensor \<Rightarrow> graph_state \<Rightarrow> error + graph_state" where
  "generate current_level layer input_vector s =
     (case make_entry layer input_vector s of
        Inl e \<Rightarrow> Inl e
      | Inr s1 \<Rightarrow>
          (case map_of (output_connections (net s1)) layer of
             None \<Rightarrow> Inl KeyError
           | Some conns \<Rightarrow> insert_connections current_level conns s1))"

definition generate_forced ::
  "nat \<Rightarrow> string \<Rightarrow> tensor \<Rightarrow> graph_state \<Rightarrow> error + graph_state" where
  "generate_forced current_level layer input_vector s =
     (case make_entry layer input_vector s of
        Inl e \<Rightarrow> Inl e
      | Inr s1 \<Rightarrow>
          (case map_of (output_connections (net s1)) layer of
             None \<Rightarrow> Inl KeyError
           | Some conns \<Rightarrow> insert_connections_forced current_level conns s1))"

text \<open>
  One pass \<open>for layer in error_queue\<close> on the ordinary path. An input layer gets its
  entry at once. Any other layer gets it only when the new error queue is empty after
  its connections have been read; otherwise the loop goes on with the next layer.
\<close>

fun ordinary_pass ::
  "nat \<Rightarrow> string list \<Rightarrow> graph_state \<Rightarrow> string list \<Rightarrow> error + (graph_state \<times> string list)" where
  "ordinary_pass current_level [] s new_error_queue = Inr (s, new_error_queue)"
| "ordinary_pass current_level (layer # rest) s new_error_queue =
     (let s0 = add_placeholder layer s in
      if layer \<in> set (input_layers (net s0)) then
        (case map_of (neuron_map (net s0)) layer of
           None \<Rightarrow> Inl KeyError
         | Some n \<Rightarrow>
             (case generate current_level layer (Zeros n) s0 of
                Inl e \<Rightarrow> Inl e
              | Inr s1 \<Rightarrow> ordinary_pass current_level rest s1 new_error_queue))
      else
        (case map_of (input_connections (net s0)) layer of
           None \<Rightarrow> Inl KeyError
         | Some conns \<Rightarrow>
             (case gather_inputs (net s0) layer conns [] new_error_queue of
                Inl e \<Rightarrow> Inl e
              | Inr (input_vector, new_error_queue') \<Rightarrow>
                  (if length new_error_queue' \<noteq> 0
                   then ordinary_pass current_level rest s0 new_error_queue'
                   else
                     (case generate current_level layer (Concat input_vector) s0 of
                        Inl e \<Rightarrow> Inl e
                      | Inr s1 \<Rightarrow> ordinary_pass current_level rest s1 new_error_queue')))))"

text \<open>The pass over an error queue that did not change: every layer gets its entry.\<close>

fun forced_pass :: "nat \<Rightarrow> string list \<Rightarrow> graph_state \<Rightarrow> error + graph_state" where
  "forced_pass current_level [] s = Inr s"
| "forced_pass current_level (layer # rest) s =
     (let s0 = add_placeholder layer s in
      if layer \<in> set (input_layers (net s0)) then
        (case map_of (neuron_map (net s0)) layer of
           None \<Rightarrow> Inl KeyError
         | Some n \<Rightarrow>
             (case generate_forced current_level layer (Zeros n) s0 of
                Inl e \<Rightarrow> Inl e
              | Inr s1 \<Rightarrow> forced_pass current_level rest s1))
      else
        (case map_of (input_connections (net s0)) layer of
           None \<Rightarrow> Inl KeyError
         | Some conns \<Rightarrow>
             (case force_inputs (net s0) conns [] of
                Inl e \<Rightarrow> Inl e
              | Inr input_vector \<Rightarrow>
                  (case generate_forced current_level layer (Concat input_vector) s0 of
                     Inl e \<Rightarrow> Inl e
                   | Inr s1 \<Rightarrow> forced_pass current_level rest s1))))"

text \<open>
  The loop \<open>while(len(error_queue) != 0)\<close>. It need not end, so it runs on fuel: one unit
  per test of the loop condition, and \<open>None\<close> when the fuel is used up.
\<close>

fun resolve_level ::
  "nat \<Rightarrow> nat \<Rightarrow> string list \<Rightarrow> graph_state \<Rightarrow> (error + graph_state) option" where
  "resolve_level 0 current_level error_queue s = None"
| "resolve_level (Suc fuel) current_level error_queue s =
     (if length error_queue = 0 then Some (Inr s)
      else
        (case ordinary_pass current_level error_queue s [] of
           Inl e \<Rightarrow> Some (Inl e)
         | Inr (s1, new_error_queue) \<Rightarrow>
             (if new_error_queue = error_queue then
                (case forced_pass current_level error_queue s1 of
                   Inl e \<Rightarrow> Some (Inl e)
                 | Inr s2 \<Rightarrow> resolve_level fuel current_level [] s2)
              else resolve_level fuel current_level new_error_queue s1)))"

text \<open>
  The loop \<open>while layers_generated != self.__number_of_layers\<close>, on the same fuel.
  Reading \<open>self.__level_vector[current_level]\<close> raises when that level does not exist.
\<close>

fun build_levels :: "nat \<Rightarrow> nat \<Rightarrow> graph_state \<Rightarrow> (error + graph_state) option" where
  "build_levels 0 current_level s = None"
| "build_levels (Suc fuel) current_level s =
     (if layers_generated s = number_of_layers (net s) then Some (Inr s)
      else if current_level < length (level_vector (net s)) then
        (let error_queue = level_vector (net s) ! current_level;
             s0 = s\<lparr>layers_done :=
                    fold (\<lambda>layer. AList.update layer True) error_queue (layers_done s)\<rparr>
         in case resolve_level fuel current_level error_queue s0 of
              None \<Rightarrow> None
            | Some (Inl e) \<Rightarrow> Some (Inl e)
            | Some (Inr s1) \<Rightarrow> build_levels fuel (current_level + 1) s1)
      else Some (Inl IndexError))"

definition construct_graph ::
  "nat \<Rightarrow> ArtificialNeuralNetwork \<Rightarrow> (error + ArtificialNeuralNetwork) option" where
  "construct_graph fuel n =
     (case build_levels fuel 0
             \<lparr>net = n\<lparr>output_matrix := []\<rparr>,
              layers_done =
                fold (\<lambda>layer. AList.update (ls_name layer) False) (order_of_execution n) [],
              layers_generated = 0\<rparr> of
        None \<Rightarrow> None
      | Some (Inl e) \<Rightarrow> Some (Inl e)
      | Some (Inr s) \<Rightarrow> Some (Inr (net s)))"

text \<open>
  \<open>ArtificialNeuralNetwork.__init__\<close>: the attributes, then the layers, then the graph.
\<close>

definition ArtificialNeuralNetwork_init ::
  "nat \<Rightarrow> (string \<Rightarrow> nat \<Rightarrow> nat \<Rightarrow> random_draws) \<Rightarrow> LayerSpec list \<Rightarrow> real
     \<Rightarrow> (error + ArtificialNeuralNetwork) option" where
  "ArtificialNeuralNetwork_init fuel draws layer_vector time_interval =
     (case construct_layers draws layer_vector (initial_network layer_vector time_interval) of
        Inl e \<Rightarrow> Some (Inl e)
      | Inr n \<Rightarrow> construct_graph fuel n)"

subsection \<open>One tick: the sensor inputs\<close>

text \<open>
  The first loop of \<open>ArtificialNeuralNetwork.forward_propagate\<close>: the value fed to the
  placeholder of every layer. The right-hand side \<open>input_dict[layer[4]]\<close> is read under
  the layer's sensor (index 4 of its tuple); when that or the placeholder is missing,
  the \<open>except\<close> clause feeds zeros, and a placeholder missing there raises. The result
  is keyed by the layer whose placeholder is fed.
\<close>

definition sensor_value ::
  "ArtificialNeuralNetwork \<Rightarrow> (string, vector) dict \<Rightarrow> LayerSpec \<Rightarrow> error + vector" where
  "sensor_value n input_dict layer =
     (case (case map_of input_dict (ls_sensor layer) of
              None \<Rightarrow> None
            | Some v \<Rightarrow> (if ls_name layer \<in> set (sensor_inputs n) then Some v else None)) of
        Some v \<Rightarrow> Inr v
      | None \<Rightarrow>
          (case map_of (neuron_map n) (ls_name layer) of
             None \<Rightarrow> Inl KeyError
           | Some k \<Rightarrow>
               (if ls_name layer \<in> set (sensor_inputs n) then Inr (replicate k 0)
                else Inl KeyError)))"

fun sensor_feed ::
  "ArtificialNeuralNetwork \<Rightarrow> (string, vector) dict \<Rightarrow> LayerSpec list \<Rightarrow> (string, vector) dict
     \<Rightarrow> error + (string, vector) dict" where
  "sensor_feed n input_dict [] sensor_input = Inr sensor_input"
| "sensor_feed n input_dict (layer # rest) sensor_input =
     (case sensor_value n input_dict layer of
        Inl e \<Rightarrow> Inl e
      | Inr v \<Rightarrow> sensor_feed n input_dict rest (AList.update (ls_name layer) v sensor_input))"

definition tick_sensor_input ::
  "ArtificialNeuralNetwork \<Rightarrow> (string, vector) dict \<Rightarrow> error + (string, vector) dict" where
  "tick_sensor_input n input_dict = sensor_feed n input_dict (order_of_execution n) []"

subsection \<open>One tick: the outputs of the hardware layers\<close>

text \<open>
  The truth value of \<open>output_vector == None\<close> when \<open>output_vector\<close> is an array: numpy
  compares entry by entry, and an array of several truth values has no truth value
  (\<open>ValueError\<close>); an array of one \<open>False\<close> is false, and so is an empty one.
\<close>

definition array_is_None :: "vector \<Rightarrow> error + bool" where
  "array_is_None a = (if length a \<le> 1 then Inr False else Inl ValueError)"

text \<open>
  \<open>np.sum(a, axis)\<close>: the second positional argument of \<open>np.sum\<close> is the axis along
  which to sum. Here it is a layer's output, an array of float64, which numpy refuses as
  an axis.
\<close>

definition np_sum :: "vector \<Rightarrow> vector \<Rightarrow> error + vector" where
  "np_sum a axis = Inl TypeError"

text \<open>
  The body of \<open>try\<close> in "Collect all the hardware stuff", for one input connection of
  a hardware layer. \<open>output_vector\<close> is Python's \<open>None\<close> or an array.
\<close>

definition collect_step ::
  "(string, vector) dict \<Rightarrow> string \<times> bool \<Rightarrow> vector option \<Rightarrow> error + vector option" where
  "collect_step output connection output_vector =
     (case output_vector of
        None \<Rightarrow>
          (case map_of output (fst connection) of
             None \<Rightarrow> Inl KeyError
           | Some v \<Rightarrow> Inr (Some v))
      | Some a \<Rightarrow>
          (case array_is_None a of
             Inl e \<Rightarrow> Inl e
           | Inr is_None \<Rightarrow>
               (case map_of output (fst connection) of
                  None \<Rightarrow> Inl KeyError
                | Some v \<Rightarrow>
                    (if is_None then Inr (Some v)
                     else (case np_sum a v of
                             Inl e \<Rightarrow> Inl e
                           | Inr s \<Rightarrow> Inr (Some s))))))"

text \<open>
  The loop over the input connections of one hardware layer: whatever the body of
  \<open>try\<close> raises is raised again as the exception about the configuration.
\<close>

fun collect_hardware ::
  "(string, vector) dict \<Rightarrow> (string \<times> bool) list \<Rightarrow> vector option \<Rightarrow> error + vector option" where
  "collect_hardware output [] output_vector = Inr output_vector"
| "collect_hardware output (connection # rest) output_vector =
     (case collect_step output connection output_vector of
        Inl e \<Rightarrow> Inl ConfigException
      | Inr output_vector' \<Rightarrow> collect_hardware output rest output_vector')"

fun output_loop ::
  "ArtificialNeuralNetwork \<Rightarrow> (string, vector) dict \<Rightarrow> string list
     \<Rightarrow> (string, vector option) dict \<Rightarrow> error + (string, vector option) dict" where
  "output_loop n output [] output_dict = Inr output_dict"
| "output_loop n output (layer # rest) output_dict =
     (case map_of (input_connections n) layer of
        None \<Rightarrow> Inl KeyError
      | Some conns \<Rightarrow>
          (case collect_hardware output conns None of
             Inl e \<Rightarrow> Inl e
           | Inr output_vector \<Rightarrow>
               output_loop n output rest (AList.update layer output_vector output_dict)))"

text \<open>
  The last part of \<open>forward_propagate\<close>, from \<open>output_dict = {}\<close> to the \<open>return\<close>,
  given the dictionary \<open>output\<close> of this tick's layer outputs.
\<close>

definition tick_output_dict ::
  "ArtificialNeuralNetwork \<Rightarrow> (string, vector) dict \<Rightarrow> error + (string, vector option) dict" where
  "tick_output_dict n output = output_loop n output (output_layers n) []"

subsection \<open>The parameters of the network as a dictionary\<close>

text \<open>Python's \<open>str\<close> of a non-negative integer.\<close>

fun str_nat :: "nat \<Rightarrow> string" where
  "str_nat n =
     (if n < 10 then [''0123456789'' ! n]
      else str_nat (n div 10) @ [''0123456789'' ! (n mod 10)])"

declare str_nat.simps [simp del]

definition layer_return_parameters :: "layer \<Rightarrow> vector option" where
  "layer_return_parameters l =
     (case l of
        Static L \<Rightarrow> Some (StaticLayer_return_parameters L)
      | Dynamic L \<Rightarrow> DynamicLayer_return_parameters L)"

fun parameters_loop ::
  "ArtificialNeuralNetwork \<Rightarrow> nat list \<Rightarrow> (string, vector option) dict
     \<Rightarrow> error + (string, vector option) dict" where
  "parameters_loop n [] output_dict = Inr output_dict"
| "parameters_loop n (index # rest) output_dict =
     (let layer_key = ''layer_'' @ str_nat index in
      if layer_key \<notin> set (input_layers n) then
        (case map_of (layer_map n) layer_key of
           None \<Rightarrow> Inl KeyError
         | Some l \<Rightarrow>
             parameters_loop n rest
               (AList.update layer_key (layer_return_parameters l) output_dict))
      else parameters_loop n rest output_dict)"

definition return_parameters_as_vector ::
  "ArtificialNeuralNetwork \<Rightarrow> error + (string, vector option) dict" where
  "return_parameters_as_vector n = parameters_loop n [0..<number_of_layers n] []"

section \<open>Example networks\<close>

text \<open>
  In every example the constructors draw 1/2 for each weight and 1/4 for each bias, and
  the layers are static with the identity activation unless said otherwise.
\<close>

definition example_draws :: "string \<Rightarrow> nat \<Rightarrow> nat \<Rightarrow> random_draws" where
  "example_draws name output_dim input_dim =
     \<lparr>rd_weight = replicate output_dim (replicate input_dim (1/2)),
      rd_bias = replicate output_dim (1/4),
      rd_delay = [[1]],
      rd_recurrent = (\<lambda>k. [])\<rparr>"

definition static_spec :: "string \<Rightarrow> nat \<Rightarrow> string \<Rightarrow> string list \<Rightarrow> string list \<Rightarrow> LayerSpec" where
  "static_spec name k sensor outputs delayed =
     \<lparr>ls_name = name, ls_size = k, ls_kind = ''STATIC'',
      ls_activation = PyActivation identity_activation, ls_sensor = sensor,
      ls_outputs = outputs, ls_delayed = delayed\<rparr>"

text \<open>An input layer \<open>A\<close> that feeds a layer \<open>B\<close>, which drives the hardware.\<close>

definition two_layer_vector :: "LayerSpec list" where
  "two_layer_vector =
     [static_spec ''A'' 1 ''SENSOR'' [''B''] [], static_spec ''B'' 1 '''' [''MOTORS''] []]"

text \<open>Two input layers of one neuron each that both drive the same hardware layer.\<close>

definition shared_hardware_vector :: "LayerSpec list" where
  "shared_hardware_vector =
     [static_spec ''A'' 1 ''S1'' [''MOTORS''] [], static_spec ''B'' 1 ''S2'' [''MOTORS''] []]"

section \<open>Notions used to state the properties of the construction\<close>

text \<open>The list stored under a key of a dictionary of lists; empty for a missing key.\<close>

definition entries :: "('k, 'v list) dict \<Rightarrow> 'k \<Rightarrow> 'v list" where
  "entries d k = (case map_of d k of None \<Rightarrow> [] | Some vs \<Rightarrow> vs)"

text \<open>
  The upstream sources of a name, read off the declarations: the declared layers that list
  the name among their outputs, in declaration order, once for each time they list it.
\<close>

definition upstream :: "LayerSpec list \<Rightarrow> string \<Rightarrow> LayerSpec list" where
  "upstream layer_vector name =
     concat (map (\<lambda>s. replicate (count_list (ls_outputs s) name) s) layer_vector)"

text \<open>
  What the \<open>try\<close> block of the second pass computes for a layer name: the summed
  sizes of its input connections, or \<open>None\<close> when a lookup fails.
\<close>

definition upstream_dimension ::
  "(string, (string \<times> bool) list) dict \<Rightarrow> (string, nat) dict \<Rightarrow> string \<Rightarrow> nat option" where
  "upstream_dimension ic nm name =
     (case map_of ic name of None \<Rightarrow> None | Some conns \<Rightarrow> sum_connections nm conns 0)"

text \<open>
  Two input layers of two and three neurons that both feed the layer \<open>C\<close>, the second
  one through a delayed connection.
\<close>

definition fan_in_vector :: "LayerSpec list" where
  "fan_in_vector =
     [static_spec ''A'' 2 ''S1'' [''C''] [],
      static_spec ''B'' 3 ''S2'' [''C'', ''MOTORS''] [''C''],
      static_spec ''C'' 1 '''' [''MOTORS''] []]"

text \<open>A single layer of the kind \<open>"CTRNN"\<close>.\<close>

definition ctrnn_vector :: "LayerSpec list" where
  "ctrnn_vector =
     [\<lparr>ls_name = ''C'', ls_size = 2, ls_kind = ''CTRNN'',
       ls_activation = PyActivation identity_activation, ls_sensor = ''S'',
       ls_outputs = [''MOTORS''], ls_delayed = []\<rparr>]"

text \<open>A single input layer of three neurons that reads the sensor \<open>SENSOR\<close>.\<close>

definition sensor_vector :: "LayerSpec list" where
  "sensor_vector = [static_spec ''A'' 3 ''SENSOR'' [''MOTORS''] []]"

text \<open>The value that the first loop of a tick feeds for a layer that has a placeholder.\<close>

definition fed_value :: "(string, vector) dict \<Rightarrow> LayerSpec \<Rightarrow> vector" where
  "fed_value input_dict layer =
     (case map_of input_dict (ls_sensor layer) of
        Some v \<Rightarrow> v
      | None \<Rightarrow> replicate (ls_size layer) 0)"

section \<open>Notions used to state the properties of the graph\<close>
















text \<open>
  \<open>L\<close> and \<open>X\<close> stand on the level after \<open>I\<close>; \<open>L\<close> waits for \<open>M\<close>, which it feeds
  itself, and \<open>X\<close> waits for \<open>L\<close>.
\<close>

definition forced_twice_vector :: "LayerSpec list" where
  "forced_twice_vector =
     [static_spec ''I'' 1 ''SENSOR'' [''L'', ''X''] [],
      static_spec ''L'' 1 '''' [''M'', ''X''] [],
      static_spec ''X'' 1 '''' [''MOTORS''] [],
      static_spec ''M'' 1 '''' [''L''] []]"

text \<open>
  \<open>A\<close> and \<open>B\<close> stand on the level after \<open>I\<close>, and \<open>B\<close>, declared after \<open>A\<close>, feeds
  \<open>A\<close>; there is no cycle.
\<close>

definition skipped_layer_vector :: "LayerSpec list" where
  "skipped_layer_vector =
     [static_spec ''I'' 1 ''SENSOR'' [''A'', ''B''] [],
      static_spec ''A'' 1 '''' [''MOTORS''] [],
      static_spec ''B'' 1 '''' [''A''] []]"

text \<open>
  As before, \<open>L\<close> waits for \<open>M\<close>, which it feeds itself, and \<open>X\<close> waits for \<open>L\<close>;
  the layer \<open>Y\<close> stands behind them on the level after \<open>I\<close> and reads \<open>I\<close> only.
\<close>

definition dropped_layer_vector :: "LayerSpec list" where
  "dropped_layer_vector =
     [static_spec ''I'' 1 ''SENSOR'' [''L'', ''X'', ''Y''] [],
      static_spec ''L'' 1 '''' [''M'', ''X''] [],
      static_spec ''X'' 1 '''' [''MOTORS''] [],
      static_spec ''M'' 1 '''' [''L''] [],
      static_spec ''Y'' 1 '''' [''MOTORS''] []]"

text \<open>
  The layer \<open>L\<close> stands on the level after \<open>I\<close> and waits for both \<open>A\<close> and \<open>B\<close>,
  which stand behind it.
\<close>

definition doubling_vector :: "LayerSpec list" where
  "doubling_vector =
     [static_spec ''I'' 1 ''SENSOR'' [''L''] [],
      static_spec ''L'' 1 '''' [''A''] [],
      static_spec ''A'' 1 '''' [''B'', ''L''] [],
      static_spec ''B'' 1 '''' [''L'', ''MOTORS''] []]"

text \<open>
  A state of the builder in which \<open>L\<close> reads \<open>I\<close>, \<open>A\<close> and \<open>B\<close> through connections
  that are not delayed, and only \<open>I\<close> has its entry in the output matrix.
\<close>

definition waits_for_two :: "graph_state \<Rightarrow> bool" where
  "waits_for_two s =
     (''L'' \<notin> set (input_layers (net s))
      \<and> map_of (input_connections (net s)) ''L''
          = Some [(''I'', False), (''A'', False), (''B'', False)]
      \<and> map_of (output_matrix (net s)) ''I'' \<noteq> None
      \<and> map_of (output_matrix (net s)) ''A'' = None
      \<and> map_of (output_matrix (net s)) ''B'' = None)"

text \<open>The local variables of \<open>_construct_graph\<close> before its outer loop.\<close>

definition first_state :: "ArtificialNeuralNetwork \<Rightarrow> graph_state" where
  "first_state n =
     \<lparr>net = n\<lparr>output_matrix := []\<rparr>,
      layers_done =
        fold (\<lambda>layer. AList.update (ls_name layer) False) (order_of_execution n) [],
      layers_generated = 0\<rparr>"


text \<open>
  The number of entries that \<open>StaticLayer.update_parameters\<close> is meant to consume: the
  weights, the bias and the two activation parameters.
\<close>

definition required_length :: "StaticLayer \<Rightarrow> nat" where
  "required_length L =
     fst (sl_weight_dim L) * snd (sl_weight_dim L) + fst (sl_weight_dim L) + 2"

section \<open>Properties of the numeric helpers\<close>

lemma inner_sum: "length row = length x \<Longrightarrow> inner row x = (\<Sum>j<length x. row ! j * x ! j)"
proof (induction row arbitrary: x)
  case Nil
  then show ?case by (simp add: inner_def)
next
  case (Cons a row)
  then obtain b y where x: "x = b # y" by (cases x) auto
  with Cons.prems have len: "length row = length y" by simp
  have "inner (a # row) (b # y) = a * b + inner row y"
    by (simp add: inner_def)
  also have "\<dots> = a * b + (\<Sum>j<length y. row ! j * y ! j)"
    using Cons.IH [OF len] by simp
  also have "\<dots> = (\<Sum>j<Suc (length y). (a # row) ! j * (b # y) ! j)"
    by (subst sum.lessThan_Suc_shift) simp
  finally show ?case using x by simp
qed

lemma inner_zeros: "inner row (replicate n 0) = 0"
proof (induction row arbitrary: n)
  case Nil
  then show ?case by (simp add: inner_def)
next
  case (Cons a row)
  then show ?case by (cases n) (simp_all add: inner_def)
qed

lemma np_dot_shaped:
  assumes "has_shape W (out, length x)"
  shows "np_dot W x = Inr (map (\<lambda>k. \<Sum>j<length x. W ! k ! j * x ! j) [0..<out])"
proof -
  from assms have len: "length W = out" and rows: "\<forall>row \<in> set W. length row = length x"
    by (auto simp: has_shape_def list_all_iff)
  have "map (\<lambda>row. inner row x) W = map (\<lambda>k. \<Sum>j<length x. W ! k ! j * x ! j) [0..<out]"
    using len rows by (intro nth_equalityI) (simp_all add: inner_sum)
  with rows show ?thesis by (simp add: np_dot_def list_all_iff)
qed

lemma np_add_same: "length a = length b \<Longrightarrow>
    np_add a b = Inr (map (\<lambda>k. a ! k + b ! k) [0..<length a])"
  by (auto simp: np_add_def broadcast2_def intro!: nth_equalityI)

lemma np_multiply_same: "length a = length b \<Longrightarrow>
    np_multiply a b = Inr (map (\<lambda>k. a ! k * b ! k) [0..<length a])"
  by (auto simp: np_multiply_def broadcast2_def intro!: nth_equalityI)

lemma affine_shaped:
  assumes "has_shape W (out, length x)" and "length b = out"
  shows "np_dot W x = Inr d \<Longrightarrow> np_add d b = Inr (W_dot_x_plus_b W x b)"
proof -
  assume "np_dot W x = Inr d"
  with np_dot_shaped [OF assms(1)]
  have d: "d = map (\<lambda>k. \<Sum>j<length x. W ! k ! j * x ! j) [0..<out]" by simp
  from assms(1) have len: "length W = out" by (simp add: has_shape_def)
  have "length d = length b" using d assms(2) by simp
  from np_add_same [OF this] show ?thesis
    using d len assms(2) by (simp add: W_dot_x_plus_b_def)
qed

section \<open>StaticLayer: the forward pass\<close>

text \<open>
  Claim C2. For every StaticLayer with a weight matrix \<open>W\<close> of shape (o, i) and a bias
  vector \<open>b\<close> of length o, and for every input vector \<open>x\<close> of length i,
  \<open>forward_propagate(x)\<close> returns \<open>activation(W\<cdot>x + b)\<close>.
\<close>

theorem StaticLayer_forward_propagate_affine:
  assumes "StaticLayer_shaped L"
    and "length x = snd (sl_weight_dim L)"
  shows "StaticLayer_forward_propagate L x =
    Inr (calculate_activation (sl_activation_function L)
          (W_dot_x_plus_b (sl_weight_matrix L) x (sl_bias_vector L)))"
proof -
  from assms have shape: "has_shape (sl_weight_matrix L) (fst (sl_weight_dim L), length x)"
    and bias: "length (sl_bias_vector L) = fst (sl_weight_dim L)"
    by (simp_all add: StaticLayer_shaped_def)
  from np_dot_shaped [OF shape] obtain d where d: "np_dot (sl_weight_matrix L) x = Inr d"
    by blast
  from affine_shaped [OF shape bias d]
  show ?thesis using d assms(2) by (simp add: StaticLayer_forward_propagate_def)
qed

theorem StaticLayer_forward_propagate_affine_witness:
  "StaticLayer_shaped example_static
   \<and> length [3, 4 :: real] = snd (sl_weight_dim example_static)
   \<and> StaticLayer_forward_propagate example_static [3, 4] = Inr [7]"
proof -
  have s: "StaticLayer_shaped example_static"
    by (simp add: StaticLayer_shaped_def example_static_def has_shape_def)
  have l: "length [3, 4 :: real] = snd (sl_weight_dim example_static)"
    by (simp add: example_static_def)
  have "W_dot_x_plus_b (sl_weight_matrix example_static) [3, 4] (sl_bias_vector example_static)
      = [7]"
    by (simp add: W_dot_x_plus_b_def example_static_def lessThan_Suc numeral_2_eq_2)
  with StaticLayer_forward_propagate_affine [OF s l] s l show ?thesis
    by (simp add: calculate_activation_def example_static_def identity_activation_def)
qed

section \<open>TimeRecurrence: the output before any input is stored\<close>

lemma before_set_input_inv:
  "before_set_input i out tr \<Longrightarrow>
     has_shape (tr_weight_matrix tr) (out, i) \<and> tr_input_vector tr = replicate i 0
     \<and> tr_weight_dim tr = (out, i)"
proof (induction rule: before_set_input.induct)
  case (constructed w0 output_dim input_dim)
  then show ?case by (simp add: TimeRecurrence_init_def)
next
  case (weight_set input_dim output_dim tr w tr')
  then show ?case
    by (auto simp: TimeRecurrence_set_weight_matrix_def split: if_splits)
qed

text \<open>
  Claim C10. For every TimeRecurrence instance with input dimension i and output
  dimension o, if \<open>forward_propagate()\<close> is called before any call to
  \<open>set_input_vector\<close>, it returns the zero vector of length o: the stored input vector
  is all zeros since construction, and the output is the weight matrix applied to it.
\<close>

theorem TimeRecurrence_forward_before_input:
  assumes "before_set_input i out tr"
  shows "TimeRecurrence_forward_propagate tr = Inr (replicate out 0)"
proof -
  from before_set_input_inv [OF assms]
  have shape: "has_shape (tr_weight_matrix tr) (out, i)"
    and inp: "tr_input_vector tr = replicate i 0" by simp_all
  from shape have len: "length (tr_weight_matrix tr) = out"
    and rows: "list_all (\<lambda>row. length row = i) (tr_weight_matrix tr)"
    by (simp_all add: has_shape_def)
  have "map (\<lambda>row. inner row (replicate i 0)) (tr_weight_matrix tr) = replicate out 0"
    using len by (simp add: inner_zeros map_replicate_const)
  with rows inp show ?thesis
    by (simp add: TimeRecurrence_forward_propagate_def np_dot_def)
qed

theorem TimeRecurrence_forward_before_input_witness:
  "before_set_input 2 3 (TimeRecurrence_init 2 3 [[1, 2], [3, 4], [5, 6]])
   \<and> TimeRecurrence_forward_propagate (TimeRecurrence_init 2 3 [[1, 2], [3, 4], [5, 6]])
       = Inr [0, 0, 0]"
proof -
  have b: "before_set_input 2 3 (TimeRecurrence_init 2 3 [[1, 2], [3, 4], [5, 6]])"
    by (rule before_set_input.constructed) (simp add: has_shape_def)
  from TimeRecurrence_forward_before_input [OF b] b show ?thesis
    by (simp add: numeral_3_eq_3)
qed

section \<open>CTRNNLayer: the Euler step\<close>

lemma euler_step_shaped:
  assumes "CTRNNLayer_shaped L"
    and "length x = snd (ct_weight_dim L)"
    and "length (ctrnn_activated L x) = fst (ct_weight_dim L)"
  shows "euler_step L x =
      Inr (euler_output (ct_previous_output L) (ct_time_weight L) (ctrnn_activated L x),
           L\<lparr>ct_previous_output :=
               euler_output (ct_previous_output L) (ct_time_weight L) (ctrnn_activated L x)\<rparr>)"
proof -
  let ?o = "fst (ct_weight_dim L)"
  let ?act = "calculate_activation (ct_activation_function L)
              (W_dot_x_plus_b (ct_weight_matrix L) x (ct_bias_vector L))"
  from assms have shape: "has_shape (ct_weight_matrix L) (?o, length x)"
    and bias: "length (ct_bias_vector L) = ?o"
    and tw: "length (ct_time_weight L) = ?o"
    and prev: "length (ct_previous_output L) = ?o"
    by (simp_all add: CTRNNLayer_shaped_def)
  from assms(3) have act: "length ?act = ?o" by (simp add: ctrnn_activated_def)
  from np_dot_shaped [OF shape] obtain d where d: "np_dot (ct_weight_matrix L) x = Inr d"
    by blast
  note s = affine_shaped [OF shape bias d]
  have p: "np_multiply (ct_previous_output L) (map (\<lambda>t. 1 - t) (ct_time_weight L))
      = Inr (map (\<lambda>k. ct_previous_output L ! k * (1 - ct_time_weight L ! k)) [0..<?o])"
    using np_multiply_same [of "ct_previous_output L" "map (\<lambda>t. 1 - t) (ct_time_weight L)"]
      prev tw by simp
  have q: "np_multiply ?act (ct_time_weight L)
      = Inr (map (\<lambda>k. ?act ! k * ct_time_weight L ! k) [0..<?o])"
    using np_multiply_same [of ?act "ct_time_weight L"] act tw by simp
  have r: "np_add (map (\<lambda>k. ct_previous_output L ! k * (1 - ct_time_weight L ! k)) [0..<?o])
        (map (\<lambda>k. ?act ! k * ct_time_weight L ! k) [0..<?o])
      = Inr (euler_output (ct_previous_output L) (ct_time_weight L) ?act)"
    using prev by (simp add: np_add_same euler_output_def)
  show ?thesis
    using assms(2) d s p q r by (simp add: euler_step_def Let_def ctrnn_activated_def)
qed

lemma scenario_layer_eq: "scenario_layer r1 r2 = Inr scenario_record"
  by (simp add: scenario_layer_def scenario_record_def CTRNNLayer_init_def
      CTRNNLayer_set_weight_matrix_def CTRNNLayer_set_bias_vector_def has_shape_def)

lemma first_call:
  "euler_step scenario_record [2] = Inr ([1], scenario_record\<lparr>ct_previous_output := [1]\<rparr>)"
  by (simp add: scenario_record_def euler_step_def np_dot_def np_add_def np_multiply_def
        broadcast2_def inner_def calculate_activation_def identity_activation_def)

lemma second_call:
  "euler_step (scenario_record\<lparr>ct_previous_output := [1]\<rparr>) [2]
     = Inr ([3/2], scenario_record\<lparr>ct_previous_output := [3/2]\<rparr>)"
  by (simp add: scenario_record_def euler_step_def np_dot_def np_add_def np_multiply_def
        broadcast2_def inner_def calculate_activation_def identity_activation_def)

lemma scenario_calls: "call_twice scenario_record [2] [2] = Inr ([1], [3/2])"
  unfolding call_twice_def by (simp add: first_call second_call)

text \<open>
  Claim C3. For every CTRNNLayer, \<open>euler_step(x)\<close> computes
  \<open>activated = activation(W\<cdot>x + b)\<close>, returns
  \<open>prev_output\<cdot>(1 - time_weight) + activated\<cdot>time_weight\<close> and stores that result as
  \<open>prev_output\<close> for the next call (here for a layer whose arrays have their declared
  shapes, an input of the declared length and an activation that returns one value
  per neuron). In particular the layer with time constant 1, time interval 0.5,
  identity activation, weight 1 and bias 0, called with \<open>[2]\<close> and then \<open>[2]\<close> again,
  returns 1.0 on the first call and 1.5 on the second.
\<close>

theorem CTRNNLayer_euler_step:
  "(\<forall>L x. CTRNNLayer_shaped L \<and> length x = snd (ct_weight_dim L)
          \<and> length (ctrnn_activated L x) = fst (ct_weight_dim L) \<longrightarrow>
      euler_step L x =
        Inr (euler_output (ct_previous_output L) (ct_time_weight L) (ctrnn_activated L x),
             L\<lparr>ct_previous_output :=
                 euler_output (ct_previous_output L) (ct_time_weight L) (ctrnn_activated L x)\<rparr>))
   \<and> (\<forall>r1 r2. \<exists>L. scenario_layer r1 r2 = Inr L \<and> ct_time_weight L = [1/2]
          \<and> call_twice L [2] [2] = Inr ([1], [3/2]))"
proof (intro conjI allI impI)
  fix L x
  assume "CTRNNLayer_shaped L \<and> length x = snd (ct_weight_dim L)
          \<and> length (ctrnn_activated L x) = fst (ct_weight_dim L)"
  then show "euler_step L x =
        Inr (euler_output (ct_previous_output L) (ct_time_weight L) (ctrnn_activated L x),
             L\<lparr>ct_previous_output :=
                 euler_output (ct_previous_output L) (ct_time_weight L) (ctrnn_activated L x)\<rparr>)"
    by (simp add: euler_step_shaped)
next
  fix r1 r2
  have "ct_time_weight scenario_record = [1/2]" by (simp add: scenario_record_def)
  with scenario_layer_eq scenario_calls
  show "\<exists>L. scenario_layer r1 r2 = Inr L \<and> ct_time_weight L = [1/2]
          \<and> call_twice L [2] [2] = Inr ([1], [3/2])"
    by blast
qed

theorem CTRNNLayer_euler_step_witness:
  "CTRNNLayer_shaped scenario_record
   \<and> length [2 :: real] = snd (ct_weight_dim scenario_record)
   \<and> length (ctrnn_activated scenario_record [2]) = fst (ct_weight_dim scenario_record)
   \<and> euler_step scenario_record [2]
       = Inr ([1], scenario_record\<lparr>ct_previous_output := [1]\<rparr>)"
proof -
  have s: "CTRNNLayer_shaped scenario_record"
    by (simp add: CTRNNLayer_shaped_def scenario_record_def has_shape_def)
  have l: "length [2 :: real] = snd (ct_weight_dim scenario_record)"
    by (simp add: scenario_record_def)
  have a: "ctrnn_activated scenario_record [2] = [2]"
    by (simp add: ctrnn_activated_def W_dot_x_plus_b_def scenario_record_def
        calculate_activation_def identity_activation_def)
  have f: "length (ctrnn_activated scenario_record [2]) = fst (ct_weight_dim scenario_record)"
    by (simp add: a) (simp add: scenario_record_def)
  have e: "euler_output (ct_previous_output scenario_record) (ct_time_weight scenario_record) [2]
      = [1]"
    by (simp add: euler_output_def scenario_record_def)
  from CTRNNLayer_euler_step [THEN conjunct1, rule_format, of scenario_record "[2]"] s l f
  have "euler_step scenario_record [2] =
      Inr (euler_output (ct_previous_output scenario_record) (ct_time_weight scenario_record)
             (ctrnn_activated scenario_record [2]),
           scenario_record\<lparr>ct_previous_output :=
             euler_output (ct_previous_output scenario_record) (ct_time_weight scenario_record)
               (ctrnn_activated scenario_record [2])\<rparr>)"
    by blast
  with s l f show ?thesis by (simp add: a e)
qed

section \<open>Parameter vectors of the layers\<close>

text \<open>
  Claim C7 (not met by the code). The claim: for every freshly constructed layer,
  \<open>update_parameters\<close> applied to the vector that \<open>return_parameters\<close> returns
  reproduces the weights, the bias and the activation parameters. In the code,
  \<open>StaticLayer.update_parameters\<close> raises \<open>NameError\<close> on every input, so also on the
  vector that \<open>return_parameters\<close> has just returned, and \<open>DynamicLayer.return_parameters\<close>
  returns \<open>None\<close> instead of the vector it has built.
\<close>

theorem parameter_round_trip_raises:
  "StaticLayer_update_parameters L (StaticLayer_return_parameters L) = Inl NameError
   \<and> DynamicLayer_return_parameters D = None"
  by (simp add: StaticLayer_update_parameters_def global_subscript_def module_globals_def
      DynamicLayer_return_parameters_def)

text \<open>
  Claim C8 (not met by the code). The claim: \<open>update_parameters\<close> raises a dimension
  error for a vector that is too short, and succeeds with a warning for one that is too
  long. In the code, \<open>update_parameters\<close> of \<open>StaticLayer\<close> and of \<open>CTRNNLayer\<close> raises
  \<open>NameError\<close> for every parameter vector, whatever its length.
\<close>

theorem update_parameters_raises_NameError:
  "StaticLayer_update_parameters L parameter_vector = Inl NameError
   \<and> CTRNNLayer_update_parameters C parameter_vector = Inl NameError"
  by (simp add: StaticLayer_update_parameters_def CTRNNLayer_update_parameters_def
      global_subscript_def module_globals_def)

text \<open>
  Apart from that statement the method does what the two claims say. Given the
  attribute \<open>self.bias_dim[0]\<close> as \<open>bias_interval\<close>, the \<open>try\<close> block raises exactly
  for the vectors that are too short, reads only the prefix it needs of a longer one, and
  gives the layer back unchanged for the vector that \<open>return_parameters\<close> returns.
\<close>

lemma row_fits: "k < out \<Longrightarrow> i + k * i \<le> out * (i::nat)"
  by (metis Suc_leI mult_Suc mult_le_mono1)

lemma reshape2_shape:
  assumes "reshape2 v d = Inr w"
  shows "has_shape w d"
proof -
  from assms have len: "length v = fst d * snd d"
    and w: "w = map (\<lambda>k. take (snd d) (drop (k * snd d) v)) [0..<fst d]"
    by (auto simp: reshape2_def split: if_splits)
  have "length (take (snd d) (drop (k * snd d) v)) = snd d" if "k < fst d" for k
    using row_fits [OF that, of "snd d"] len by simp
  with w show ?thesis by (simp add: has_shape_def list_all_iff)
qed

lemma StaticLayer_update_block_lengths:
  assumes bias: "sl_bias_dim L = fst (sl_weight_dim L)"
  shows "(length pv < required_length L \<longrightarrow>
            (\<exists>e. StaticLayer_update_block L pv
                   (fst (sl_weight_dim L) * snd (sl_weight_dim L)) (sl_bias_dim L) = Inl e))
       \<and> (required_length L \<le> length pv \<longrightarrow>
            (\<exists>L'. StaticLayer_update_block L pv
                   (fst (sl_weight_dim L) * snd (sl_weight_dim L)) (sl_bias_dim L)
                 = Inr (L', required_length L)))"
proof (intro conjI impI)
  let ?wi = "fst (sl_weight_dim L) * snd (sl_weight_dim L)"
  let ?o = "fst (sl_weight_dim L)"
  assume short: "length pv < required_length L"
  show "\<exists>e. StaticLayer_update_block L pv ?wi (sl_bias_dim L) = Inl e"
  proof (cases "StaticLayer_update_block L pv ?wi (sl_bias_dim L)")
    case (Inl e)
    then show ?thesis by blast
  next
    case (Inr r)
    then have "?wi + ?o + 1 < length pv"
      by (auto simp: StaticLayer_update_block_def Let_def item_def bias
          split: sum.splits if_splits)
    with short show ?thesis by (simp add: required_length_def)
  qed
next
  let ?wi = "fst (sl_weight_dim L) * snd (sl_weight_dim L)"
  let ?o = "fst (sl_weight_dim L)"
  assume long: "required_length L \<le> length pv"
  then have len: "?wi + ?o + 2 \<le> length pv" by (simp add: required_length_def)
  then have "length (slice pv 0 ?wi) = ?wi" by (simp add: slice_def)
  then obtain w where w: "reshape2 (slice pv 0 ?wi) (sl_weight_dim L) = Inr w"
    by (simp add: reshape2_def)
  from reshape2_shape [OF w]
  have sw: "StaticLayer_set_weight_matrix L w = Inr (L\<lparr>sl_weight_matrix := w\<rparr>)"
    by (simp add: StaticLayer_set_weight_matrix_def)
  from len have b: "reshape1 (slice pv ?wi (?wi + ?o)) ?o = Inr (slice pv ?wi (?wi + ?o))"
    by (simp add: reshape1_def slice_def)
  from len have sb: "StaticLayer_set_bias_vector (L\<lparr>sl_weight_matrix := w\<rparr>)
        (slice pv ?wi (?wi + ?o))
      = Inr (L\<lparr>sl_weight_matrix := w, sl_bias_vector := slice pv ?wi (?wi + ?o)\<rparr>)"
    by (simp add: StaticLayer_set_bias_vector_def slice_def bias)
  from len have i1: "item pv (?wi + ?o) = Inr (pv ! (?wi + ?o))"
    and i2: "item pv (Suc (?wi + ?o)) = Inr (pv ! Suc (?wi + ?o))"
    by (simp_all add: item_def)
  show "\<exists>L'. StaticLayer_update_block L pv ?wi (sl_bias_dim L) = Inr (L', required_length L)"
    unfolding StaticLayer_update_block_def Let_def
    by (simp add: bias w sw b sb i1 i2 required_length_def)
qed

lemma length_concat_rows:
  "\<forall>row \<in> set W. length row = i \<Longrightarrow> length (concat W) = length W * i"
  by (induction W) simp_all

lemma drop_concat_rows:
  "\<forall>row \<in> set W. length row = i \<Longrightarrow> drop (k * i) (concat W) = concat (drop k W)"
proof (induction W arbitrary: k)
  case Nil
  then show ?case by simp
next
  case (Cons row W)
  then show ?case by (cases k) simp_all
qed

lemma reshape2_concat:
  assumes "has_shape W d"
  shows "reshape2 (concat W) d = Inr W"
proof -
  from assms have len: "length W = fst d" and rows: "\<forall>row \<in> set W. length row = snd d"
    by (simp_all add: has_shape_def list_all_iff)
  note total = length_concat_rows [OF rows]
  have "take (snd d) (drop (k * snd d) (concat W)) = W ! k" if "k < length W" for k
  proof -
    from that have "drop k W = W ! k # drop (Suc k) W" by (simp add: Cons_nth_drop_Suc)
    moreover from that rows have "length (W ! k) = snd d" by simp
    ultimately show ?thesis by (simp add: drop_concat_rows [OF rows])
  qed
  then have "map (\<lambda>k. take (snd d) (drop (k * snd d) (concat W))) [0..<length W] = W"
    by (intro nth_equalityI) simp_all
  with total len show ?thesis by (simp add: reshape2_def)
qed

lemma StaticLayer_update_block_round_trip:
  assumes shaped: "StaticLayer_shaped L"
    and bias: "sl_bias_dim L = fst (sl_weight_dim L)"
  shows "StaticLayer_update_block L (StaticLayer_return_parameters L)
           (fst (sl_weight_dim L) * snd (sl_weight_dim L)) (sl_bias_dim L)
         = Inr (L, required_length L)"
proof -
  let ?W = "sl_weight_matrix L" and ?b = "sl_bias_vector L"
  let ?af = "sl_activation_function L"
  let ?wi = "fst (sl_weight_dim L) * snd (sl_weight_dim L)"
  let ?pv = "StaticLayer_return_parameters L"
  from shaped have shape: "has_shape ?W (sl_weight_dim L)"
    and blen: "length ?b = fst (sl_weight_dim L)"
    by (simp_all add: StaticLayer_shaped_def)
  from shape have rows: "\<forall>row \<in> set ?W. length row = snd (sl_weight_dim L)"
    and wlen: "length ?W = fst (sl_weight_dim L)"
    by (simp_all add: has_shape_def list_all_iff)
  from length_concat_rows [OF rows] wlen have clen: "length (concat ?W) = ?wi" by simp
  have pv: "?pv = concat ?W @ ?b @ [af_beta ?af, af_theta ?af]"
    by (simp add: StaticLayer_return_parameters_def get_parameters_def)
  have s1: "slice ?pv 0 ?wi = concat ?W"
    by (simp add: pv slice_def clen)
  have s2: "slice ?pv ?wi (?wi + fst (sl_weight_dim L)) = ?b"
    by (simp add: pv slice_def clen blen)
  have i1: "item ?pv (?wi + fst (sl_weight_dim L)) = Inr (af_beta ?af)"
    and i2: "item ?pv (Suc (?wi + fst (sl_weight_dim L))) = Inr (af_theta ?af)"
    by (simp_all add: pv item_def clen blen nth_append)
  have same: "StaticLayer_set_activation_parameters L (af_beta ?af) (af_theta ?af) = L"
    by (simp add: StaticLayer_set_activation_parameters_def set_parameters_def)
  show ?thesis
    unfolding StaticLayer_update_block_def Let_def
    by (simp add: bias s1 s2 i1 i2 reshape2_concat [OF shape] reshape1_def blen
        StaticLayer_set_weight_matrix_def StaticLayer_set_bias_vector_def shape same
        required_length_def)
qed

section \<open>The network's dictionaries\<close>

text \<open>
  Claim C9 (not met by the code). The claim: \<open>return_parameters_as_vector()\<close> returns a
  mapping from each non-input layer's name to that layer's parameter vector. The code
  looks the layers up under the keys \<open>layer_0\<close>, \<open>layer_1\<close>, ... instead of their names:
  for the network of the layers \<open>A\<close> and \<open>B\<close> it raises \<open>KeyError\<close>.
\<close>

theorem return_parameters_as_vector_KeyError:
  "case ArtificialNeuralNetwork_init 5 example_draws two_layer_vector (1/100) of
     Some (Inr n) \<Rightarrow> return_parameters_as_vector n = Inl KeyError
   | _ \<Rightarrow> False"
  by code_simp

lemma collect_hardware_two_connections:
  "collect_hardware output (c1 # c2 # rest) None = Inl ConfigException"
  by (simp add: collect_step_def array_is_None_def np_sum_def split: option.splits sum.splits)

text \<open>
  Claim C4 (not met by the code). The claim: for each hardware layer the tick returns
  the element-wise sum of the outputs of every layer connected to it, and fails only
  when their dimensions differ. In the code the second contribution is combined with
  \<open>np.sum(output_vector, output[...])\<close>, which raises, so a hardware layer with two
  input connections always ends in the exception about the configuration: here two
  layers of one neuron each, with the outputs \<open>[1]\<close> and \<open>[2]\<close>.
\<close>

theorem tick_output_dict_two_contributors:
  "case ArtificialNeuralNetwork_init 5 example_draws shared_hardware_vector (1/100) of
     Some (Inr n) \<Rightarrow> tick_output_dict n [(''A'', [1]), (''B'', [2])] = Inl ConfigException
   | _ \<Rightarrow> False"
  by code_simp

section \<open>Constructing the layers\<close>

lemma entries_update:
  "entries (AList.update k v d) t = (if t = k then v else entries d t)"
  by (simp add: entries_def update_conv')

lemma add_input_connections_step:
  "add_input_connections name delayed (out # outs) ic =
     add_input_connections name delayed outs
       (AList.update out (entries ic out @ [(name, out \<in> set delayed)]) ic)"
  by (simp add: entries_def split: option.splits)

lemma add_input_connections_entries:
  "entries (add_input_connections name delayed outs ic) t =
     entries ic t @ replicate (count_list outs t) (name, t \<in> set delayed)"
proof (induction outs arbitrary: ic)
  case Nil
  then show ?case by simp
next
  case (Cons out outs)
  show ?case
    unfolding add_input_connections_step Cons.IH
    by (simp add: entries_update replicate_append_same)
qed

lemma add_input_connections_None:
  "map_of (add_input_connections name delayed outs ic) t = None
     \<longleftrightarrow> map_of ic t = None \<and> t \<notin> set outs"
proof (induction outs arbitrary: ic)
  case Nil
  then show ?case by simp
next
  case (Cons out outs)
  show ?case
    unfolding add_input_connections_step Cons.IH
    by (auto simp: update_conv')
qed

lemma construct_dictionaries_entries:
  "entries (input_connections (construct_dictionaries lv n)) t =
     entries (input_connections n) t
     @ map (\<lambda>s. (ls_name s, t \<in> set (ls_delayed s))) (upstream lv t)"
proof (induction lv arbitrary: n)
  case Nil
  then show ?case by (simp add: upstream_def)
next
  case (Cons s lv)
  have "upstream (s # lv) t = replicate (count_list (ls_outputs s) t) s @ upstream lv t"
    by (simp add: upstream_def)
  then show ?case
    by (simp add: Cons.IH add_input_connections_entries map_replicate)
qed

lemma upstream_empty_iff:
  "upstream lv t = [] \<longleftrightarrow> (\<forall>s \<in> set lv. t \<notin> set (ls_outputs s))"
  by (induction lv) (auto simp: upstream_def count_list_0_iff)

lemma construct_dictionaries_None:
  "map_of (input_connections (construct_dictionaries lv n)) t = None
     \<longleftrightarrow> map_of (input_connections n) t = None \<and> upstream lv t = []"
proof (induction lv arbitrary: n)
  case Nil
  then show ?case by (simp add: upstream_def)
next
  case (Cons s lv)
  show ?case
    by (auto simp: Cons.IH add_input_connections_None upstream_empty_iff)
qed

lemma construct_dictionaries_neuron_other:
  "name \<notin> ls_name ` set lv \<Longrightarrow>
     map_of (neuron_map (construct_dictionaries lv n)) name = map_of (neuron_map n) name"
  by (induction lv arbitrary: n) (auto simp: update_conv')

lemma construct_dictionaries_neuron_map:
  "distinct (map ls_name lv) \<Longrightarrow> s \<in> set lv \<Longrightarrow>
     map_of (neuron_map (construct_dictionaries lv n)) (ls_name s) = Some (ls_size s)"
proof (induction lv arbitrary: n)
  case Nil
  then show ?case by simp
next
  case (Cons a lv)
  show ?case
  proof (cases "s = a")
    case True
    with Cons.prems have "ls_name s \<notin> ls_name ` set lv" by auto
    then show ?thesis using True
      by (simp add: construct_dictionaries_neuron_other update_conv')
  next
    case False
    with Cons.prems Cons.IH show ?thesis by simp
  qed
qed

lemma construct_dictionaries_frame:
  "level_vector (construct_dictionaries lv n) = level_vector n
   \<and> input_layers (construct_dictionaries lv n) = input_layers n
   \<and> layer_map (construct_dictionaries lv n) = layer_map n
   \<and> output_layers (construct_dictionaries lv n) = output_layers n"
  by (induction lv arbitrary: n) simp_all

lemma sum_connections_sizes:
  "\<forall>s \<in> set ss. map_of nm (ls_name s) = Some (ls_size s) \<Longrightarrow>
     sum_connections nm (map (\<lambda>s. (ls_name s, f s)) ss) acc
       = Some (acc + sum_list (map ls_size ss))"
  by (induction ss arbitrary: acc) simp_all

lemma input_dimension_of_cases:
  assumes "input_dimension_of n layer = Inr (d, n1)"
  shows "(upstream_dimension (input_connections n) (neuron_map n) (ls_name layer) = Some d \<and> n1 = n)
     \<or> (upstream_dimension (input_connections n) (neuron_map n) (ls_name layer) = None
         \<and> d = ls_size layer
         \<and> (\<exists>level0 levels. level_vector n = level0 # levels
              \<and> n1 = n\<lparr>input_layers := input_layers n @ [ls_name layer],
                       level_vector := (level0 @ [ls_name layer]) # levels\<rparr>))"
  using assms
  by (auto simp: input_dimension_of_def upstream_dimension_def split: option.splits list.splits)

lemma input_dimension_of_frame:
  assumes "input_dimension_of n layer = Inr (d, n1)"
  shows "input_connections n1 = input_connections n \<and> neuron_map n1 = neuron_map n
     \<and> layer_map n1 = layer_map n
     \<and> set (input_layers n) \<subseteq> set (input_layers n1)
     \<and> (level_vector n \<noteq> [] \<longrightarrow> level_vector n1 \<noteq> []
          \<and> set (hd (level_vector n)) \<subseteq> set (hd (level_vector n1)))"
  using input_dimension_of_cases [OF assms] by auto

lemma DynamicLayer_init_misplaced:
  "DynamicLayer_init i out a (PyFloat t) x name d = Inl TypeError"
  by (cases a) (simp_all add: DynamicLayer_init_def recurrent_dimensions_def)

lemma generate_layers_static_step:
  assumes "ls_kind layer = ''STATIC''"
    and "generate_layers draws (layer # rest) n = Inr n'"
  shows "\<exists>d n1 L. input_dimension_of n layer = Inr (d, n1)
      \<and> StaticLayer_init d (ls_size layer) (ls_activation layer) (ls_name layer)
            (rd_weight (draws (ls_name layer) (ls_size layer) d))
            (rd_bias (draws (ls_name layer) (ls_size layer) d)) = Inr L
      \<and> generate_layers draws rest
            (n1\<lparr>layer_map := AList.update (ls_name layer) (Static L) (layer_map n1)\<rparr>) = Inr n'"
  using assms by (auto split: sum.splits prod.splits)

lemma generate_layers_not_dynamic:
  assumes "generate_layers draws (layer # rest) n = Inr n'"
  shows "ls_kind layer \<noteq> ''DYNAMIC''"
  using assms by (auto simp: DynamicLayer_init_misplaced split: sum.splits prod.splits if_splits)

lemma generate_layers_other_step:
  assumes "ls_kind layer \<noteq> ''STATIC''"
    and "generate_layers draws (layer # rest) n = Inr n'"
  shows "generate_layers draws rest n = Inr n'"
  using assms generate_layers_not_dynamic [OF assms(2)] by simp

lemma StaticLayer_init_dim:
  "StaticLayer_init d k a name w b = Inr L \<Longrightarrow> sl_weight_dim L = (k, d)"
  by (cases a) (auto simp: StaticLayer_init_def)

lemma generate_layers_frame:
  "generate_layers draws lv n = Inr n' \<Longrightarrow>
     input_connections n' = input_connections n \<and> neuron_map n' = neuron_map n
     \<and> set (input_layers n) \<subseteq> set (input_layers n')
     \<and> (level_vector n \<noteq> [] \<longrightarrow> level_vector n' \<noteq> []
          \<and> set (hd (level_vector n)) \<subseteq> set (hd (level_vector n')))"
proof (induction lv arbitrary: n)
  case Nil
  then show ?case by simp
next
  case (Cons layer rest)
  show ?case
  proof (cases "ls_kind layer = ''STATIC''")
    case True
    from generate_layers_static_step [OF True Cons.prems]
    obtain d n1 L where dim: "input_dimension_of n layer = Inr (d, n1)"
      and rest: "generate_layers draws rest
            (n1\<lparr>layer_map := AList.update (ls_name layer) (Static L) (layer_map n1)\<rparr>) = Inr n'"
      by blast
    from Cons.IH [OF rest] input_dimension_of_frame [OF dim] show ?thesis
      by simp blast
  next
    case False
    from Cons.IH [OF generate_layers_other_step [OF False Cons.prems]] show ?thesis .
  qed
qed

lemma generate_layers_layer_map_other:
  "generate_layers draws lv n = Inr n' \<Longrightarrow>
   name \<notin> ls_name ` {s \<in> set lv. ls_kind s = ''STATIC''} \<Longrightarrow>
     map_of (layer_map n') name = map_of (layer_map n) name"
proof (induction lv arbitrary: n)
  case Nil
  then show ?case by simp
next
  case (Cons layer rest)
  show ?case
  proof (cases "ls_kind layer = ''STATIC''")
    case True
    from generate_layers_static_step [OF True Cons.prems(1)]
    obtain d n1 L where dim: "input_dimension_of n layer = Inr (d, n1)"
      and rest: "generate_layers draws rest
            (n1\<lparr>layer_map := AList.update (ls_name layer) (Static L) (layer_map n1)\<rparr>) = Inr n'"
      by blast
    from Cons.prems(2) True have ne: "name \<noteq> ls_name layer"
      and nin: "name \<notin> ls_name ` {s \<in> set rest. ls_kind s = ''STATIC''}" by auto
    from Cons.IH [OF rest nin] input_dimension_of_frame [OF dim] ne show ?thesis
      by (simp add: update_conv')
  next
    case False
    from Cons.prems(2) have nin: "name \<notin> ls_name ` {s \<in> set rest. ls_kind s = ''STATIC''}"
      by auto
    from Cons.IH [OF generate_layers_other_step [OF False Cons.prems(1)] nin] show ?thesis .
  qed
qed

lemma generate_layers_static:
  "generate_layers draws lv n = Inr n' \<Longrightarrow> distinct (map ls_name lv) \<Longrightarrow>
   s \<in> set lv \<Longrightarrow> ls_kind s = ''STATIC'' \<Longrightarrow>
     \<exists>L. map_of (layer_map n') (ls_name s) = Some (Static L)
       \<and> sl_weight_dim L =
           (ls_size s,
            case upstream_dimension (input_connections n) (neuron_map n) (ls_name s) of
              Some d \<Rightarrow> d | None \<Rightarrow> ls_size s)
       \<and> (upstream_dimension (input_connections n) (neuron_map n) (ls_name s) = None \<longrightarrow>
            ls_name s \<in> set (input_layers n') \<and> level_vector n' \<noteq> []
            \<and> ls_name s \<in> set (hd (level_vector n')))"
proof (induction lv arbitrary: n)
  case Nil
  then show ?case by simp
next
  case (Cons layer rest)
  show ?case
  proof (cases "s = layer")
    case True
    with Cons.prems have static: "ls_kind layer = ''STATIC''" by simp
    from generate_layers_static_step [OF static Cons.prems(1)]
    obtain d n1 L where dim: "input_dimension_of n layer = Inr (d, n1)"
      and init: "StaticLayer_init d (ls_size layer) (ls_activation layer) (ls_name layer)
            (rd_weight (draws (ls_name layer) (ls_size layer) d))
            (rd_bias (draws (ls_name layer) (ls_size layer) d)) = Inr L"
      and rest: "generate_layers draws rest
            (n1\<lparr>layer_map := AList.update (ls_name layer) (Static L) (layer_map n1)\<rparr>) = Inr n'"
      by blast
    from Cons.prems(2) have "ls_name layer \<notin> ls_name ` {s \<in> set rest. ls_kind s = ''STATIC''}"
      by auto
    from generate_layers_layer_map_other [OF rest this]
    have m: "map_of (layer_map n') (ls_name layer) = Some (Static L)"
      by (simp add: update_conv')
    note grow = generate_layers_frame [OF rest]
    from input_dimension_of_cases [OF dim]
    show ?thesis
    proof
      assume "upstream_dimension (input_connections n) (neuron_map n) (ls_name layer) = Some d
          \<and> n1 = n"
      with m StaticLayer_init_dim [OF init] True show ?thesis by simp
    next
      assume a: "upstream_dimension (input_connections n) (neuron_map n) (ls_name layer) = None
         \<and> d = ls_size layer
         \<and> (\<exists>level0 levels. level_vector n = level0 # levels
              \<and> n1 = n\<lparr>input_layers := input_layers n @ [ls_name layer],
                       level_vector := (level0 @ [ls_name layer]) # levels\<rparr>)"
      then obtain level0 levels where n1: "n1 = n\<lparr>input_layers := input_layers n @ [ls_name layer],
                       level_vector := (level0 @ [ls_name layer]) # levels\<rparr>" by blast
      from grow n1 have "ls_name layer \<in> set (input_layers n') \<and> level_vector n' \<noteq> []
            \<and> ls_name layer \<in> set (hd (level_vector n'))" by auto
      with a m StaticLayer_init_dim [OF init] True show ?thesis by simp
    qed
  next
    case False
    with Cons.prems have mem: "s \<in> set rest" and dist: "distinct (map ls_name rest)" by auto
    show ?thesis
    proof (cases "ls_kind layer = ''STATIC''")
      case True
      from generate_layers_static_step [OF True Cons.prems(1)]
      obtain d n1 L where dim: "input_dimension_of n layer = Inr (d, n1)"
        and rest: "generate_layers draws rest
            (n1\<lparr>layer_map := AList.update (ls_name layer) (Static L) (layer_map n1)\<rparr>) = Inr n'"
        by blast
      from Cons.IH [OF rest dist mem Cons.prems(4)] input_dimension_of_frame [OF dim]
      show ?thesis by simp
    next
      case False
      from Cons.IH [OF generate_layers_other_step [OF False Cons.prems(1)] dist mem Cons.prems(4)]
      show ?thesis .
    qed
  qed
qed

lemma generate_layers_input_layers:
  "generate_layers draws lv n = Inr n' \<Longrightarrow> level_vector n \<noteq> [] \<Longrightarrow>
     level_vector n' \<noteq> []
     \<and> set (input_layers n')
         \<subseteq> set (input_layers n) \<union> ls_name ` {s \<in> set lv. ls_kind s = ''STATIC''}
     \<and> set (hd (level_vector n'))
         \<subseteq> set (hd (level_vector n)) \<union> ls_name ` {s \<in> set lv. ls_kind s = ''STATIC''}"
proof (induction lv arbitrary: n)
  case Nil
  then show ?case by simp
next
  case (Cons layer rest)
  define S where "S = ls_name ` {s \<in> set (layer # rest). ls_kind s = ''STATIC''}"
  define R where "R = ls_name ` {s \<in> set rest. ls_kind s = ''STATIC''}"
  have b: "R \<subseteq> S" by (auto simp: S_def R_def)
  show ?case
  proof (cases "ls_kind layer = ''STATIC''")
    case True
    from generate_layers_static_step [OF True Cons.prems(1)]
    obtain d n1 L where dim: "input_dimension_of n layer = Inr (d, n1)"
      and rest: "generate_layers draws rest
            (n1\<lparr>layer_map := AList.update (ls_name layer) (Static L) (layer_map n1)\<rparr>) = Inr n'"
      by blast
    from input_dimension_of_cases [OF dim] Cons.prems(2)
    have n1: "level_vector n1 \<noteq> []"
      and i1: "set (input_layers n1) \<subseteq> insert (ls_name layer) (set (input_layers n))"
      and h1: "set (hd (level_vector n1)) \<subseteq> insert (ls_name layer) (set (hd (level_vector n)))"
      by auto
    from n1 have "level_vector (n1\<lparr>layer_map :=
        AList.update (ls_name layer) (Static L) (layer_map n1)\<rparr>) \<noteq> []" by simp
    from Cons.IH [OF rest this]
    have ne: "level_vector n' \<noteq> []"
      and i: "set (input_layers n') \<subseteq> set (input_layers n1) \<union> R"
      and h: "set (hd (level_vector n')) \<subseteq> set (hd (level_vector n1)) \<union> R"
      by (simp_all add: R_def)
    have a: "ls_name layer \<in> S" using True by (simp add: S_def)
    from i i1 a b have "set (input_layers n') \<subseteq> set (input_layers n) \<union> S" by blast
    moreover from h h1 a b have "set (hd (level_vector n')) \<subseteq> set (hd (level_vector n)) \<union> S"
      by blast
    ultimately show ?thesis using ne by (simp add: S_def)
  next
    case False
    from Cons.IH [OF generate_layers_other_step [OF False Cons.prems(1)] Cons.prems(2)]
    have ne: "level_vector n' \<noteq> []"
      and i: "set (input_layers n') \<subseteq> set (input_layers n) \<union> R"
      and h: "set (hd (level_vector n')) \<subseteq> set (hd (level_vector n)) \<union> R"
      by (simp_all add: R_def)
    from i b have "set (input_layers n') \<subseteq> set (input_layers n) \<union> S" by blast
    moreover from h b have "set (hd (level_vector n')) \<subseteq> set (hd (level_vector n)) \<union> S"
      by blast
    ultimately show ?thesis using ne by (simp add: S_def)
  qed
qed

lemma set_upstream: "set (upstream lv t) \<subseteq> set lv"
  by (auto simp: upstream_def)

lemma upstream_dimension_dictionaries:
  assumes dist: "distinct (map ls_name lv)"
    and ic: "input_connections n = []"
  shows "upstream_dimension (input_connections (construct_dictionaries lv n))
           (neuron_map (construct_dictionaries lv n)) t
         = (if upstream lv t = [] then None else Some (sum_list (map ls_size (upstream lv t))))"
proof (cases "upstream lv t = []")
  case True
  with construct_dictionaries_None [of lv n t] ic show ?thesis
    by (simp add: upstream_dimension_def)
next
  case False
  let ?ic = "input_connections (construct_dictionaries lv n)"
  let ?nm = "neuron_map (construct_dictionaries lv n)"
  from False construct_dictionaries_None [of lv n t]
  obtain conns where conns: "map_of ?ic t = Some conns" by auto
  with construct_dictionaries_entries [of lv n t] ic
  have c: "conns = map (\<lambda>s. (ls_name s, t \<in> set (ls_delayed s))) (upstream lv t)"
    by (simp add: entries_def)
  have "\<forall>s \<in> set (upstream lv t). map_of ?nm (ls_name s) = Some (ls_size s)"
    using set_upstream [of lv t] construct_dictionaries_neuron_map [OF dist] by blast
  from sum_connections_sizes [OF this, of "\<lambda>s. t \<in> set (ls_delayed s)" 0]
  show ?thesis using False conns c by (simp add: upstream_dimension_def)
qed

text \<open>
  Claim C5, as amended. For every layer specification of the kind \<open>STATIC\<close>, a
  construction that succeeds instantiates one \<open>StaticLayer\<close> under the layer's name:
  its output dimension is the layer's size, and its input dimension is the sum of the
  sizes of all its upstream sources when it has any; a static layer with no upstream
  entry is an input layer, with its own size as input dimension, and it is placed in
  level 0. A specification of the kind \<open>CTRNN\<close> or \<open>RBF\<close> instantiates no layer, and
  it is neither made an input layer nor placed in level 0. (Layer names are distinct.)
\<close>

theorem construct_layers_static_layer:
  assumes ok: "construct_layers draws layer_vector (initial_network layer_vector time_interval)
                 = Inr n"
    and dist: "distinct (map ls_name layer_vector)"
    and mem: "layer \<in> set layer_vector"
  shows "(ls_kind layer = ''STATIC'' \<longrightarrow>
           (\<exists>L. map_of (layer_map n) (ls_name layer) = Some (Static L)
              \<and> sl_weight_dim L =
                  (ls_size layer,
                   if upstream layer_vector (ls_name layer) = [] then ls_size layer
                   else sum_list (map ls_size (upstream layer_vector (ls_name layer))))
              \<and> (upstream layer_vector (ls_name layer) = [] \<longrightarrow>
                   ls_name layer \<in> set (input_layers n) \<and> level_vector n \<noteq> []
                   \<and> ls_name layer \<in> set (level_vector n ! 0))))
       \<and> (ls_kind layer = ''CTRNN'' \<or> ls_kind layer = ''RBF'' \<longrightarrow>
            map_of (layer_map n) (ls_name layer) = None
            \<and> ls_name layer \<notin> set (input_layers n)
            \<and> level_vector n \<noteq> [] \<and> ls_name layer \<notin> set (level_vector n ! 0))"
proof -
  let ?n0 = "(initial_network layer_vector time_interval)\<lparr>layer_map := [], neuron_map := []\<rparr>"
  let ?nd = "construct_dictionaries layer_vector ?n0"
  from ok obtain n2 where gen: "generate_layers draws layer_vector ?nd = Inr n2"
    and n: "layer_map n = layer_map n2" "input_layers n = input_layers n2"
      "level_vector n = level_vector n2"
    by (auto simp: construct_layers_def split: sum.splits)
  have ic0: "input_connections ?n0 = []" by (simp add: initial_network_def)
  define ud where "ud = upstream_dimension (input_connections ?nd) (neuron_map ?nd)
     (ls_name layer)"
  have ud: "ud = (if upstream layer_vector (ls_name layer) = [] then None
      else Some (sum_list (map ls_size (upstream layer_vector (ls_name layer)))))"
    unfolding ud_def by (rule upstream_dimension_dictionaries [OF dist ic0])
  have static: "\<exists>L. map_of (layer_map n) (ls_name layer) = Some (Static L)
              \<and> sl_weight_dim L =
                  (ls_size layer,
                   if upstream layer_vector (ls_name layer) = [] then ls_size layer
                   else sum_list (map ls_size (upstream layer_vector (ls_name layer))))
              \<and> (upstream layer_vector (ls_name layer) = [] \<longrightarrow>
                   ls_name layer \<in> set (input_layers n) \<and> level_vector n \<noteq> []
                   \<and> ls_name layer \<in> set (level_vector n ! 0))"
    if k: "ls_kind layer = ''STATIC''"
  proof -
    from generate_layers_static [OF gen dist mem k, folded ud_def]
    obtain L where L: "map_of (layer_map n2) (ls_name layer) = Some (Static L)"
      and d: "sl_weight_dim L = (ls_size layer, case ud of Some d \<Rightarrow> d | None \<Rightarrow> ls_size layer)"
      and i: "ud = None \<longrightarrow> ls_name layer \<in> set (input_layers n2) \<and> level_vector n2 \<noteq> []
            \<and> ls_name layer \<in> set (hd (level_vector n2))"
      by auto
    show ?thesis
    proof (cases "upstream layer_vector (ls_name layer) = []")
      case True
      with ud i have "ls_name layer \<in> set (input_layers n2) \<and> level_vector n2 \<noteq> []
            \<and> ls_name layer \<in> set (hd (level_vector n2))" by simp
      then have "ls_name layer \<in> set (input_layers n) \<and> level_vector n \<noteq> []
            \<and> ls_name layer \<in> set (level_vector n ! 0)"
        using n by (auto simp: hd_conv_nth)
      with L d ud True n show ?thesis by simp
    next
      case False
      with L d ud n show ?thesis by simp
    qed
  qed
  have other: "map_of (layer_map n) (ls_name layer) = None
      \<and> ls_name layer \<notin> set (input_layers n)
      \<and> level_vector n \<noteq> [] \<and> ls_name layer \<notin> set (level_vector n ! 0)"
    if k: "ls_kind layer = ''CTRNN'' \<or> ls_kind layer = ''RBF''"
  proof -
    have nin: "ls_name layer \<notin> ls_name ` {s \<in> set layer_vector. ls_kind s = ''STATIC''}"
    proof
      assume "ls_name layer \<in> ls_name ` {s \<in> set layer_vector. ls_kind s = ''STATIC''}"
      then obtain s where s: "s \<in> set layer_vector" "ls_kind s = ''STATIC''"
        "ls_name s = ls_name layer" by auto
      from dist s(1) mem s(3) have "s = layer"
        by (meson distinct_map inj_onD)
      with s(2) k show False by auto
    qed
    from generate_layers_layer_map_other [OF gen nin] n
    have none: "map_of (layer_map n) (ls_name layer) = None"
      by (simp add: construct_dictionaries_frame)
    have start: "level_vector ?nd = [[]]" "input_layers ?nd = []"
      by (simp_all add: construct_dictionaries_frame initial_network_def)
    from generate_layers_input_layers [OF gen] start
    have "level_vector n2 \<noteq> []
        \<and> set (input_layers n2) \<subseteq> ls_name ` {s \<in> set layer_vector. ls_kind s = ''STATIC''}
        \<and> set (hd (level_vector n2))
            \<subseteq> ls_name ` {s \<in> set layer_vector. ls_kind s = ''STATIC''}"
      by simp
    with nin n have "ls_name layer \<notin> set (input_layers n)
        \<and> level_vector n \<noteq> [] \<and> ls_name layer \<notin> set (level_vector n ! 0)"
      by (auto simp: hd_conv_nth)
    with none show ?thesis by simp
  qed
  from static other show ?thesis by blast
qed

text \<open>
  The claim as first stated fails for a layer of the kind \<open>CTRNN\<close>: the construction
  succeeds, no layer object is made for it, and although it has no upstream entry it is
  neither an input layer nor in level 0.
\<close>

theorem construct_layers_ctrnn_counterexample:
  "case construct_layers example_draws ctrnn_vector (initial_network ctrnn_vector (1/100)) of
     Inr n \<Rightarrow> map_of (layer_map n) ''C'' = None \<and> input_layers n = [] \<and> level_vector n = [[]]
   | Inl e \<Rightarrow> False"
  by code_simp

theorem construct_layers_static_layer_witness:
  "(case construct_layers example_draws fan_in_vector (initial_network fan_in_vector (1/100)) of
      Inr n \<Rightarrow>
        distinct (map ls_name fan_in_vector)
        \<and> static_spec ''C'' 1 '''' [''MOTORS''] [] \<in> set fan_in_vector
        \<and> (\<exists>L. map_of (layer_map n) ''C'' = Some (Static L) \<and> sl_weight_dim L = (1, 5))
    | Inl e \<Rightarrow> False)
   \<and> (case construct_layers example_draws ctrnn_vector (initial_network ctrnn_vector (1/100)) of
        Inr n \<Rightarrow>
          distinct (map ls_name ctrnn_vector)
          \<and> map ls_kind ctrnn_vector = [''CTRNN'']
          \<and> map_of (layer_map n) ''C'' = None
          \<and> ''C'' \<notin> set (input_layers n)
          \<and> level_vector n \<noteq> [] \<and> ''C'' \<notin> set (level_vector n ! 0)
      | Inl e \<Rightarrow> False)"
proof -
  define r where "r = construct_layers example_draws fan_in_vector
     (initial_network fan_in_vector (1/100))"
  have "case r of Inr n \<Rightarrow> True | Inl e \<Rightarrow> False"
    unfolding r_def by code_simp
  then obtain n where n: "r = Inr n" by (cases r) auto
  have dist: "distinct (map ls_name fan_in_vector)"
    by (simp add: fan_in_vector_def static_spec_def)
  have mem: "static_spec ''C'' 1 '''' [''MOTORS''] [] \<in> set fan_in_vector"
    by (simp add: fan_in_vector_def)
  have up: "upstream fan_in_vector ''C'' =
      [static_spec ''A'' 2 ''S1'' [''C''] [], static_spec ''B'' 3 ''S2'' [''C'', ''MOTORS''] [''C'']]"
    by (simp add: upstream_def fan_in_vector_def static_spec_def)
  from construct_layers_static_layer [OF n [unfolded r_def] dist mem]
  have "\<exists>L. map_of (layer_map n) ''C'' = Some (Static L) \<and> sl_weight_dim L = (1, 5)"
    by (simp add: up static_spec_def)
  with dist mem n have first: "case r of
      Inr n \<Rightarrow>
        distinct (map ls_name fan_in_vector)
        \<and> static_spec ''C'' 1 '''' [''MOTORS''] [] \<in> set fan_in_vector
        \<and> (\<exists>L. map_of (layer_map n) ''C'' = Some (Static L) \<and> sl_weight_dim L = (1, 5))
    | Inl e \<Rightarrow> False"
    by simp
  define r' where "r' = construct_layers example_draws ctrnn_vector
     (initial_network ctrnn_vector (1/100))"
  have "case r' of Inr n \<Rightarrow> True | Inl e \<Rightarrow> False"
    unfolding r'_def by code_simp
  then obtain n' where n': "r' = Inr n'" by (cases r') auto
  have dist': "distinct (map ls_name ctrnn_vector)"
    and kind': "map ls_kind ctrnn_vector = [''CTRNN'']"
    by (simp_all add: ctrnn_vector_def)
  have mem': "hd ctrnn_vector \<in> set ctrnn_vector"
    by (simp add: ctrnn_vector_def)
  from construct_layers_static_layer [OF n' [unfolded r'_def] dist' mem']
  have "map_of (layer_map n') ''C'' = None
      \<and> ''C'' \<notin> set (input_layers n')
      \<and> level_vector n' \<noteq> [] \<and> ''C'' \<notin> set (level_vector n' ! 0)"
    by (simp add: ctrnn_vector_def)
  with dist' kind' n' have second: "case r' of
      Inr n \<Rightarrow>
        distinct (map ls_name ctrnn_vector)
        \<and> map ls_kind ctrnn_vector = [''CTRNN'']
        \<and> map_of (layer_map n) ''C'' = None
        \<and> ''C'' \<notin> set (input_layers n)
        \<and> level_vector n \<noteq> [] \<and> ''C'' \<notin> set (level_vector n ! 0)
    | Inl e \<Rightarrow> False"
    by simp
  from first second show ?thesis unfolding r_def r'_def by (rule conjI)
qed

section \<open>One tick: the sensor inputs\<close>

lemma sensor_value_placed:
  assumes "ls_name l \<in> set (sensor_inputs n)"
    and "map_of (neuron_map n) (ls_name l) = Some (ls_size l)"
  shows "sensor_value n input_dict l = Inr (fed_value input_dict l)"
  using assms by (simp add: sensor_value_def fed_value_def split: option.splits)

lemma sensor_feed_placed:
  assumes "\<forall>l \<in> set ls. ls_name l \<in> set (sensor_inputs n)
             \<and> map_of (neuron_map n) (ls_name l) = Some (ls_size l)"
    and "distinct (map ls_name ls)"
  shows "\<exists>feed. sensor_feed n input_dict ls acc = Inr feed
     \<and> (\<forall>l \<in> set ls. map_of feed (ls_name l) = Some (fed_value input_dict l))
     \<and> (\<forall>x. x \<notin> ls_name ` set ls \<longrightarrow> map_of feed x = map_of acc x)"
  using assms
proof (induction ls arbitrary: acc)
  case Nil
  then show ?case by simp
next
  case (Cons a ls)
  let ?acc = "AList.update (ls_name a) (fed_value input_dict a) acc"
  from Cons.prems have v: "sensor_value n input_dict a = Inr (fed_value input_dict a)"
    by (simp add: sensor_value_placed)
  from Cons.prems have rest: "\<forall>l \<in> set ls. ls_name l \<in> set (sensor_inputs n)
             \<and> map_of (neuron_map n) (ls_name l) = Some (ls_size l)"
    and dist: "distinct (map ls_name ls)" and fresh: "ls_name a \<notin> ls_name ` set ls"
    by auto
  from Cons.IH [OF rest dist, of ?acc]
  obtain feed where feed: "sensor_feed n input_dict ls ?acc = Inr feed"
    and here: "\<forall>l \<in> set ls. map_of feed (ls_name l) = Some (fed_value input_dict l)"
    and other: "\<forall>x. x \<notin> ls_name ` set ls \<longrightarrow> map_of feed x = map_of ?acc x"
    by blast
  from other fresh have "map_of feed (ls_name a) = Some (fed_value input_dict a)"
    by (simp add: update_conv')
  moreover from other
  have "\<forall>x. x \<notin> ls_name ` set (a # ls) \<longrightarrow> map_of feed x = map_of acc x"
    by (simp add: update_conv')
  ultimately show ?case using v feed here by simp
qed

text \<open>
  Claim C6, as amended. The sensor input of a layer is looked up under the layer's
  sensor (the fifth entry of its declaration), not under its name. For every layer whose
  sensor is missing from the per-tick dictionary the tick feeds a vector of zeros of the
  layer's size, and building the feed raises no error; a layer whose sensor is present is
  fed the vector found there. (The layers are those that the graph builder gave a
  placeholder, and their names are distinct.)
\<close>

theorem tick_sensor_input_by_sensor:
  assumes "\<forall>l \<in> set (order_of_execution n). ls_name l \<in> set (sensor_inputs n)
             \<and> map_of (neuron_map n) (ls_name l) = Some (ls_size l)"
    and "distinct (map ls_name (order_of_execution n))"
  shows "\<exists>feed. tick_sensor_input n input_dict = Inr feed
     \<and> (\<forall>l \<in> set (order_of_execution n).
           map_of feed (ls_name l) =
             Some (case map_of input_dict (ls_sensor l) of
                     Some v \<Rightarrow> v
                   | None \<Rightarrow> replicate (ls_size l) 0))"
  using sensor_feed_placed [OF assms, of input_dict "[]"]
  unfolding tick_sensor_input_def fed_value_def by blast

text \<open>
  The claim as first stated fails for the input layer \<open>A\<close> of three neurons with the
  sensor \<open>SENSOR\<close>: its name is missing from the dictionary, and it is fed \<open>[1, 2, 3]\<close>,
  not three zeros.
\<close>

theorem tick_sensor_input_counterexample:
  "case ArtificialNeuralNetwork_init 5 example_draws sensor_vector (1/100) of
     Some (Inr n) \<Rightarrow>
       ''A'' \<in> set (input_layers n)
       \<and> map_of (neuron_map n) ''A'' = Some 3
       \<and> map_of [(''SENSOR'', [1, 2, 3 :: real])] ''A'' = None
       \<and> tick_sensor_input n [(''SENSOR'', [1, 2, 3])] = Inr [(''A'', [1, 2, 3])]
   | _ \<Rightarrow> False"
  by code_simp

theorem tick_sensor_input_by_sensor_witness:
  "case ArtificialNeuralNetwork_init 5 example_draws sensor_vector (1/100) of
     Some (Inr n) \<Rightarrow>
       list_all (\<lambda>l. ls_name l \<in> set (sensor_inputs n)
                    \<and> map_of (neuron_map n) (ls_name l) = Some (ls_size l))
         (order_of_execution n)
       \<and> distinct (map ls_name (order_of_execution n))
       \<and> (\<exists>feed. tick_sensor_input n [(''A'', [9, 9, 9])] = Inr feed
              \<and> map_of feed ''A'' = Some [0, 0, 0])
   | _ \<Rightarrow> False"
proof -
  define r where "r = ArtificialNeuralNetwork_init 5 example_draws sensor_vector (1/100)"
  have e: "case r of
      Some (Inr n) \<Rightarrow>
        list_all (\<lambda>l. ls_name l \<in> set (sensor_inputs n)
                    \<and> map_of (neuron_map n) (ls_name l) = Some (ls_size l))
          (order_of_execution n)
        \<and> distinct (map ls_name (order_of_execution n))
        \<and> map ls_name (order_of_execution n) = [''A'']
        \<and> map ls_size (order_of_execution n) = [3]
        \<and> map ls_sensor (order_of_execution n) = [''SENSOR'']
    | _ \<Rightarrow> False"
    unfolding r_def by code_simp
  then obtain n where n: "r = Some (Inr n)"
    by (cases r) (auto split: sum.splits)
  from e n have h1: "\<forall>l \<in> set (order_of_execution n). ls_name l \<in> set (sensor_inputs n)
             \<and> map_of (neuron_map n) (ls_name l) = Some (ls_size l)"
    and h2: "distinct (map ls_name (order_of_execution n))"
    and names: "map ls_name (order_of_execution n) = [''A'']"
    and sizes: "map ls_size (order_of_execution n) = [3]"
    and sensors: "map ls_sensor (order_of_execution n) = [''SENSOR'']"
    by (simp_all add: list_all_iff)
  from names sizes sensors obtain l where ord: "order_of_execution n = [l]"
    and l: "ls_name l = ''A''" "ls_size l = 3" "ls_sensor l = ''SENSOR''"
    by (cases "order_of_execution n") auto
  from tick_sensor_input_by_sensor [OF h1 h2, of "[(''A'', [9, 9, 9])]"]
  have "\<exists>feed. tick_sensor_input n [(''A'', [9, 9, 9])] = Inr feed
              \<and> map_of feed ''A'' = Some [0, 0, 0]"
    by (simp add: ord l numeral_3_eq_3)
  with e n show ?thesis by (simp add: r_def [symmetric])
qed

section \<open>Constructing the computational graph\<close>







































text \<open>
  The construction does not always complete. After an error queue has been resolved by
  force, the connections of its layers are inserted into the next level without a look at
  \<open>layers_done\<close>, so a layer can get a second level and a second entry, the counter
  \<open>layers_generated\<close> passes the number of layers, and the outer loop reads a level that
  does not exist. And a layer that follows a waiting layer in the error queue is dropped
  from the queue, so it never gets its entry.
\<close>

lemma forced_twice_raises:
  "case ArtificialNeuralNetwork_init 10 example_draws forced_twice_vector (1/100) of
     Some (Inl e) \<Rightarrow> e = IndexError
   | _ \<Rightarrow> False"
  by code_simp

lemma skipped_layer_raises:
  "case ArtificialNeuralNetwork_init 10 example_draws skipped_layer_vector (1/100) of
     Some (Inl e) \<Rightarrow> e = IndexError
   | _ \<Rightarrow> False"
  by code_simp

text \<open>
  A construction can also complete although a declared layer never got its node. In the
  following network the layer \<open>Y\<close> is dropped from the error queue of level 1, the
  layer \<open>X\<close> gets a second level and a second entry, and the counter reaches the number
  of layers without \<open>Y\<close>.
\<close>

lemma dropped_layer_completes:
  "case ArtificialNeuralNetwork_init 10 example_draws dropped_layer_vector (1/100) of
     Some (Inr n) \<Rightarrow>
       level_vector n = [[''I''], [''L'', ''X'', ''Y''], [''M'', ''X'']]
       \<and> map fst (output_matrix n) = [''I'', ''L'', ''X'', ''M'']
       \<and> map_of (output_matrix n) ''Y'' = None
       \<and> map_of (output_matrix n) ''X'' = Some (Concat [FromOutput ''I'', FromOutput ''L''])
   | _ \<Rightarrow> False"
  by code_simp

text \<open>
  The inner loop need not end. A layer that waits for two upstream layers is appended
  to the new error queue once for each of them, so the new queue is twice as long as
  the old one, never equal to it, and no entry is ever forced: whatever the fuel, the
  construction of the following network does not return.
\<close>

lemma waits_for_two_placeholder:
  "waits_for_two s \<Longrightarrow> waits_for_two (add_placeholder ''L'' s)"
  by (simp add: waits_for_two_def add_placeholder_def)

lemma waits_for_two_gather:
  "waits_for_two s \<Longrightarrow>
     gather_inputs (net s) ''L'' [(''I'', False), (''A'', False), (''B'', False)] [] neq
       = Inr ([FromOutput ''I''], neq @ [''L'', ''L''])"
  by (auto simp: waits_for_two_def)

lemma waits_for_two_pass:
  "waits_for_two s \<Longrightarrow>
     \<exists>s'. ordinary_pass cur (replicate m ''L'') s neq = Inr (s', neq @ replicate (2 * m) ''L'')
        \<and> waits_for_two s'"
proof (induction m arbitrary: s neq)
  case 0
  then show ?case by simp
next
  case (Suc m)
  let ?s0 = "add_placeholder ''L'' s"
  from Suc.prems have w: "waits_for_two ?s0" by (rule waits_for_two_placeholder)
  from w have a: "''L'' \<notin> set (input_layers (net ?s0))"
    and b: "map_of (input_connections (net ?s0)) ''L''
          = Some [(''I'', False), (''A'', False), (''B'', False)]"
    by (simp_all add: waits_for_two_def)
  from Suc.IH [OF w, of "neq @ [''L'', ''L'']"]
  obtain s' where p: "ordinary_pass cur (replicate m ''L'') ?s0 (neq @ [''L'', ''L''])
        = Inr (s', (neq @ [''L'', ''L'']) @ replicate (2 * m) ''L'')"
    and w': "waits_for_two s'" by blast
  have "ordinary_pass cur (replicate (Suc m) ''L'') s neq
      = ordinary_pass cur (replicate m ''L'') ?s0 (neq @ [''L'', ''L''])"
    using a b waits_for_two_gather [OF w, of neq] by (simp add: Let_def)
  with p w' show ?case by (auto simp: replicate_append_same)
qed

lemma waits_for_two_resolve:
  "waits_for_two s \<Longrightarrow> 0 < m \<Longrightarrow> resolve_level fuel cur (replicate m ''L'') s = None"
proof (induction fuel arbitrary: s m)
  case 0
  then show ?case by simp
next
  case (Suc fuel)
  from waits_for_two_pass [OF Suc.prems(1), of cur m "[]"]
  obtain s' where p: "ordinary_pass cur (replicate m ''L'') s [] = Inr (s', replicate (2 * m) ''L'')"
    and w': "waits_for_two s'" by auto
  from Suc.prems(2) have ne: "replicate (2 * m) ''L'' \<noteq> replicate m ''L''"
    by (metis length_replicate mult_2 add_cancel_right_left not_less_iff_gr_or_eq add.commute)
  from Suc.prems(2) have "0 < 2 * m" by simp
  from Suc.IH [OF w' this] p ne Suc.prems(2) show ?case by simp
qed

lemma build_levels_waits:
  assumes gen: "layers_generated s \<noteq> number_of_layers (net s)"
    and lv: "level_vector (net s) = [[''I'']]"
    and pass: "ordinary_pass 0 [''I'']
                 (s\<lparr>layers_done := fold (\<lambda>layer. AList.update layer True) [''I'']
                                      (layers_done s)\<rparr>) [] = Inr (s1, [])"
    and w: "waits_for_two s1"
    and lv1: "level_vector (net s1) = [[''I''], [''L'']]"
    and gen1: "layers_generated s1 \<noteq> number_of_layers (net s1)"
  shows "build_levels fuel 0 s = None"
proof (cases fuel)
  case 0
  then show ?thesis by simp
next
  case (Suc f)
  show ?thesis
  proof (cases f)
    case 0
    with Suc gen lv show ?thesis by simp
  next
    case (Suc g)
    show ?thesis
    proof (cases g)
      case 0
      with \<open>fuel = Suc f\<close> \<open>f = Suc g\<close> gen lv pass show ?thesis by simp
    next
      case (Suc h)
      let ?s1 = "s1\<lparr>layers_done := fold (\<lambda>layer. AList.update layer True) [''L'']
                                      (layers_done s1)\<rparr>"
      have "waits_for_two ?s1" using w by (simp add: waits_for_two_def)
      from waits_for_two_resolve [OF this, of 1 "Suc h" 1]
      have stuck: "resolve_level (Suc h) 1 [''L''] ?s1 = None" by simp
      have first: "resolve_level (Suc (Suc h)) 0 [''I'']
                 (s\<lparr>layers_done := fold (\<lambda>layer. AList.update layer True) [''I'']
                                      (layers_done s)\<rparr>) = Some (Inr s1)"
        using pass by simp
      have second: "build_levels (Suc (Suc h)) 1 s1 = None"
        using gen1 lv1 stuck by simp
      show ?thesis
        unfolding \<open>fuel = Suc f\<close> \<open>f = Suc g\<close> \<open>g = Suc h\<close>
        using gen lv first second by simp
    qed
  qed
qed

lemma doubling_never_returns:
  "ArtificialNeuralNetwork_init fuel example_draws doubling_vector (1/100) = None"
proof -
  define r where "r = construct_layers example_draws doubling_vector
      (initial_network doubling_vector (1/100))"
  have ev: "case r of
      Inr n \<Rightarrow>
        layers_generated (first_state n) \<noteq> number_of_layers (net (first_state n))
        \<and> level_vector (net (first_state n)) = [[''I'']]
        \<and> (case ordinary_pass 0 [''I'']
                   ((first_state n)\<lparr>layers_done :=
                       fold (\<lambda>layer. AList.update layer True) [''I'']
                         (layers_done (first_state n))\<rparr>) [] of
              Inr (s1, neq) \<Rightarrow>
                neq = [] \<and> waits_for_two s1 \<and> level_vector (net s1) = [[''I''], [''L'']]
                \<and> layers_generated s1 \<noteq> number_of_layers (net s1)
            | Inl e \<Rightarrow> False)
    | Inl e \<Rightarrow> False"
    unfolding r_def by code_simp
  then obtain n where n: "r = Inr n" by (cases r) auto
  from ev n obtain s1 where
    gen: "layers_generated (first_state n) \<noteq> number_of_layers (net (first_state n))"
    and lv: "level_vector (net (first_state n)) = [[''I'']]"
    and pass: "ordinary_pass 0 [''I'']
                   ((first_state n)\<lparr>layers_done :=
                       fold (\<lambda>layer. AList.update layer True) [''I'']
                         (layers_done (first_state n))\<rparr>) [] = Inr (s1, [])"
    and w: "waits_for_two s1" and lv1: "level_vector (net s1) = [[''I''], [''L'']]"
    and gen1: "layers_generated s1 \<noteq> number_of_layers (net s1)"
    by (auto split: sum.splits prod.splits)
  from build_levels_waits [OF gen lv pass w lv1 gen1]
  have "build_levels fuel 0 (first_state n) = None" .
  then have "construct_graph fuel n = None"
    by (simp add: construct_graph_def first_state_def)
  with n show ?thesis
    by (simp add: ArtificialNeuralNetwork_init_def r_def [symmetric])
qed

end
